theory Spec2Isabelle
  imports Complex_Main
begin

section \<open>ratcave/coordinates.py: values, objects and the store\<close>

text \<open>
  The module keeps its data in numpy arrays of 32-bit floats. The embedding takes the
  components as real numbers: rounding to 32 bits is not modelled, the arithmetic of the
  source is read as exact arithmetic, except where the source compares a computed number
  for equality (\<open>rotation_matrix_between_vectors\<close>): there the float64 arithmetic of numpy
  is a parameter, given both without rounding and with the rounding of float64. Instances
  are mutable and can be shared, so they live in a store addressed by references; every
  method takes the store and returns the new one. Matrices are values: a method that
  returns a matrix builds it anew.
  The observer hook \<open>notify_observers\<close> is inherited from a base class outside the module:
  a call to it is recorded in the store, together with the components the observer sees at
  that moment.
\<close>

datatype error = AttributeError | ValueError | AssertionError | TypeError | IndexError

datatype cls =
  RotationEulerRadians | RotationEulerDegrees | RotationQuaternion | Translation | Scale

type_synonym ref = nat

text \<open>Python values that the modelled methods receive or return.\<close>

datatype pyval =
  Float real
  | Tuple "real list"
  | Str string
  | Obj ref

record obj =
  cls :: cls
  array :: "real list"
  axes :: "pyval option"

record state =
  heap :: "obj list"
  notified :: "(ref \<times> real list) list"

definition bind :: "error + 'a \<Rightarrow> ('a \<Rightarrow> error + 'b) \<Rightarrow> error + 'b" where
  "bind m f = (case m of Inl e \<Rightarrow> Inl e | Inr x \<Rightarrow> f x)"

subsection \<open>Coordinates\<close>

text \<open>The class attribute \<open>coords\<close>: \<open>RotationQuaternion\<close> overrides it, the others inherit it.\<close>

fun coords :: "cls \<Rightarrow> (char \<times> nat) list" where
  "coords RotationQuaternion = [(CHR ''w'', 0), (CHR ''x'', 1), (CHR ''y'', 2), (CHR ''z'', 3)]"
| "coords _ = [(CHR ''x'', 0), (CHR ''y'', 1), (CHR ''z'', 2)]"

text \<open>\<open>itertools.product(keys, repeat=n)\<close>: the first position varies slowest.\<close>

fun product_repeat :: "'a list \<Rightarrow> nat \<Rightarrow> 'a list list" where
  "product_repeat ks 0 = [[]]"
| "product_repeat ks (Suc n) = concat (map (\<lambda>k. map (\<lambda>w. k # w) (product_repeat ks n)) ks)"

text \<open>numpy: \<open>a[indices]\<close> with a list of indices raises IndexError out of range.\<close>

definition take_indices :: "real list \<Rightarrow> nat list \<Rightarrow> error + real list" where
  "take_indices a indices =
     (if list_all (\<lambda>i. i < length a) indices then Inr (map (\<lambda>i. a ! i) indices)
      else Inl IndexError)"

text \<open>
  numpy: the value of \<open>a[indices] = value\<close> is broadcast to the shape of the index list
  (a scalar and a sequence of length one are repeated), and the writes to a repeated index
  happen in the order of the index list.
\<close>

fun broadcast :: "pyval \<Rightarrow> nat \<Rightarrow> error + real list" where
  "broadcast (Float v) n = Inr (replicate n v)"
| "broadcast (Tuple vs) n =
     (if length vs = n then Inr vs
      else if length vs = 1 then Inr (replicate n (hd vs))
      else Inl ValueError)"
| "broadcast (Str _) n = Inl ValueError"
| "broadcast (Obj _) n = Inl TypeError"

fun scatter :: "real list \<Rightarrow> (nat \<times> real) list \<Rightarrow> real list" where
  "scatter a [] = a"
| "scatter a ((i, v) # ivs) = scatter (a[i := v]) ivs"

definition setitem :: "real list \<Rightarrow> nat list \<Rightarrow> pyval \<Rightarrow> error + real list" where
  "setitem a indices val =
     bind (broadcast val (length indices)) (\<lambda>vs.
       if list_all (\<lambda>i. i < length a) indices then Inr (scatter a (zip indices vs))
       else Inl IndexError)"

text \<open>
  Modelled from the spec: \<open>notify_observers\<close> of the base class \<open>IterObservable\<close>
  (\<open>ratcave.utils.observers\<close>, outside the module), "an immediate, synchronous call on the
  mutating thread": the call is appended to \<open>notified\<close> with the array as it is then.
\<close>

definition notify_observers :: "ref \<Rightarrow> state \<Rightarrow> state" where
  "notify_observers self s = s\<lparr>notified := notified s @ [(self, array (heap s ! self))]\<rparr>"

text \<open>
  The two closures of \<open>gen_getter_setter_funs\<close>, over the list \<open>indices\<close> and the number of
  letters \<open>len(args)\<close>.
\<close>

definition getter :: "nat list \<Rightarrow> nat \<Rightarrow> ref \<Rightarrow> state \<Rightarrow> error + pyval" where
  "getter indices len_args self s =
     (if len_args > 1 then
        bind (take_indices (array (heap s ! self)) indices) (\<lambda>vs. Inr (Tuple vs))
      else if hd indices < length (array (heap s ! self)) then
        Inr (Float (array (heap s ! self) ! hd indices))
      else Inl IndexError)"

definition setter :: "nat list \<Rightarrow> ref \<Rightarrow> pyval \<Rightarrow> state \<Rightarrow> error + state" where
  "setter indices self val s =
     bind (setitem (array (heap s ! self)) indices val) (\<lambda>a.
       Inr (notify_observers self
              (s\<lparr>heap := (heap s)[self := (heap s ! self)\<lparr>array := a\<rparr>]\<rparr>)))"

type_synonym property =
  "(ref \<Rightarrow> state \<Rightarrow> error + pyval) \<times> (ref \<Rightarrow> pyval \<Rightarrow> state \<Rightarrow> error + state)"

definition gen_getter_setter_funs :: "cls \<Rightarrow> string \<Rightarrow> property" where
  "gen_getter_setter_funs c args =
     (let indices = map (\<lambda>coord. the (map_of (coords c) coord)) args
      in (getter indices (length args), setter indices))"

text \<open>
  \<open>_init_coord_properties\<close>: the properties set on the class, as a table from the name
  \<open>''.join(args)\<close> to the pair \<open>(fget, fset)\<close>.
\<close>

definition init_coord_properties :: "cls \<Rightarrow> (string \<times> property) list" where
  "init_coord_properties c =
     concat (map (\<lambda>n_repeats. map (\<lambda>args. (args, gen_getter_setter_funs c args))
                                   (product_repeat (map fst (coords c)) n_repeats))
                 [1 ..< length (coords c) + 1])"

text \<open>
  Attribute reads. A property of the class comes first, then what \<open>__init__\<close> stored on
  the instance: \<open>_array\<close> always, \<open>axes\<close> on the Euler classes. The source reads no other data
  attribute of an instance but \<open>_axes\<close>, which nothing sets. A tuple, a float and a string
  have none of these attributes.
\<close>

fun getattr :: "state \<Rightarrow> pyval \<Rightarrow> string \<Rightarrow> error + pyval" where
  "getattr s (Obj r) name =
     (case map_of (init_coord_properties (cls (heap s ! r))) name of
        Some (fget, fset) \<Rightarrow> fget r s
      | None \<Rightarrow>
          if name = ''_array'' then Inr (Tuple (array (heap s ! r)))
          else if name = ''axes'' then
            (case axes (heap s ! r) of Some a \<Rightarrow> Inr a | None \<Rightarrow> Inl AttributeError)
          else Inl AttributeError)"
| "getattr s _ name = Inl AttributeError"

text \<open>\<open>Coordinates.__init__\<close>: a new instance holding the arguments as its array.\<close>

definition Coordinates_init :: "cls \<Rightarrow> real list \<Rightarrow> state \<Rightarrow> ref \<times> state" where
  "Coordinates_init c args s =
     (length (heap s), s\<lparr>heap := heap s @ [\<lparr>cls = c, array = args, axes = None\<rparr>]\<rparr>)"

fun isinstance :: "state \<Rightarrow> pyval \<Rightarrow> cls \<Rightarrow> bool" where
  "isinstance s (Obj r) c = (cls (heap s ! r) = c)"
| "isinstance s _ c = False"

text \<open>\<open>len\<close>: no class of the module defines \<open>__len__\<close>.\<close>

fun py_len :: "pyval \<Rightarrow> error + nat" where
  "py_len (Tuple vs) = Inr (length vs)"
| "py_len (Str cs) = Inr (length cs)"
| "py_len _ = Inl TypeError"

fun items :: "pyval \<Rightarrow> error + real list" where
  "items (Tuple vs) = Inr vs"
| "items _ = Inl TypeError"

subsection \<open>Translation\<close>

definition Translation_init :: "real list \<Rightarrow> state \<Rightarrow> error + ref \<times> state" where
  "Translation_init args s =
     (if length args = 3 then Inr (Coordinates_init Translation args s)
      else Inl AssertionError)"

definition Translation_add :: "ref \<Rightarrow> pyval \<Rightarrow> state \<Rightarrow> error + ref \<times> state" where
  "Translation_add self other s =
     bind (if isinstance s other Translation then getattr s other ''xyz'' else Inr other) (\<lambda>oth.
     bind (py_len oth) (\<lambda>n.
       if n \<noteq> 3 then Inl ValueError
       else
         bind (getattr s (Obj self) ''xyz'') (\<lambda>xyz.
         bind (items xyz) (\<lambda>as.
         bind (items oth) (\<lambda>bs.
           Translation_init (map (\<lambda>(a, b). a + b) (zip as bs)) s)))))"

definition Translation_sub :: "ref \<Rightarrow> pyval \<Rightarrow> state \<Rightarrow> error + ref \<times> state" where
  "Translation_sub self other s =
     bind (if isinstance s other Translation then getattr s other ''xyz'' else Inr other) (\<lambda>oth.
     bind (py_len oth) (\<lambda>n.
       if n \<noteq> 3 then Inl ValueError
       else
         bind (getattr s (Obj self) ''xyz'') (\<lambda>xyz.
         bind (getattr s other ''xyz'') (\<lambda>other_xyz.
         bind (items xyz) (\<lambda>as.
         bind (items other_xyz) (\<lambda>bs.
           Translation_init (map (\<lambda>(a, b). a - b) (zip as bs)) s))))))"

text \<open>
  \<open>to_matrix\<close>: \<open>mat[:3, 3] = self._array\<close> on \<open>np.eye(4, 4)\<close>; an array of another length
  than 3 does not fit the column (one of length 1 is repeated).
\<close>

definition Translation_to_matrix :: "ref \<Rightarrow> state \<Rightarrow> error + real list list" where
  "Translation_to_matrix self s =
     (let a = array (heap s ! self)
      in if length a = 3 then
           Inr [[1, 0, 0, a ! 0], [0, 1, 0, a ! 1], [0, 0, 1, a ! 2], [0, 0, 0, 1]]
         else if length a = 1 then
           Inr [[1, 0, 0, a ! 0], [0, 1, 0, a ! 0], [0, 0, 1, a ! 0], [0, 0, 0, 1]]
         else Inl ValueError)"

definition empty_state :: state where
  "empty_state = \<lparr>heap = [], notified = []\<rparr>"

subsection \<open>The rotation primitive and numpy helpers\<close>

text \<open>
  The conversions between Euler angles, quaternions and matrices are made by
  \<open>scipy.spatial.transform.Rotation\<close>, a library outside the repository. The methods take
  them as a parameter; each may raise. \<open>from_quat\<close> is \<open>R.from_quat(value)\<close>, for any Python
  value (the source hands it the instance itself, not its components); it answers the
  rotation as its quaternion, and \<open>quat_as_matrix\<close> and \<open>quat_as_euler\<close> are \<open>as_matrix()\<close>
  and \<open>as_euler(seq, degrees=False)\<close> of such a rotation.
\<close>

record scipy_R =
  euler_as_quat :: "pyval \<Rightarrow> real list \<Rightarrow> error + real list"
  euler_as_matrix :: "pyval \<Rightarrow> real list \<Rightarrow> error + real list list"
  from_quat :: "pyval \<Rightarrow> error + real list"
  quat_as_matrix :: "real list \<Rightarrow> error + real list list"
  quat_as_euler :: "pyval \<Rightarrow> real list \<Rightarrow> error + real list"
  matrix_as_euler :: "pyval \<Rightarrow> bool \<Rightarrow> real list list \<Rightarrow> error + real list"
  matrix_as_quat :: "real list list \<Rightarrow> error + real list"

text \<open>
  A call by keywords: a keyword that is not a parameter of the method raises TypeError. The
  parameters of scipy's \<open>as_euler\<close> are \<open>seq\<close> and \<open>degrees\<close>.
\<close>

definition check_keywords :: "string list \<Rightarrow> string list \<Rightarrow> error + unit" where
  "check_keywords params keywords =
     (if list_all (\<lambda>k. k \<in> set params) keywords then Inr () else Inl TypeError)"

definition degrees :: "real list \<Rightarrow> real list" where
  "degrees a = map (\<lambda>x. x * 180 / pi) a"

definition radians :: "real list \<Rightarrow> real list" where
  "radians a = map (\<lambda>x. x * pi / 180) a"

definition eye :: "nat \<Rightarrow> real list list" where
  "eye n = map (\<lambda>i. map (\<lambda>j. if i = j then 1 else 0) [0 ..< n]) [0 ..< n]"

definition diag :: "real list \<Rightarrow> real list list" where
  "diag vs = map (\<lambda>i. map (\<lambda>j. if i = j then vs ! i else 0) [0 ..< length vs]) [0 ..< length vs]"

text \<open>\<open>matrix[:3, :3]\<close>, on a matrix given by its rows.\<close>

definition block3 :: "real list list \<Rightarrow> real list list" where
  "block3 m = map (take 3) (take 3 m)"

text \<open>\<open>mat[:3, :3] = res\<close> for a 3x3 \<open>res\<close>; another shape is reported as ValueError.\<close>

definition set_block3 :: "real list list \<Rightarrow> real list list \<Rightarrow> error + real list list" where
  "set_block3 mat res =
     (if length res = 3 \<and> list_all (\<lambda>row. length row = 3) res
      then Inr (map (\<lambda>(row, r). r @ drop 3 row) (zip (take 3 mat) res) @ drop 3 mat)
      else Inl ValueError)"

text \<open>\<open>np.linalg.norm(m, axis=0)\<close>: the Euclidean norm of each column.\<close>

definition linalg_norm_axis0 :: "real list list \<Rightarrow> real list" where
  "linalg_norm_axis0 m = map (\<lambda>col. sqrt (sum_list (map (\<lambda>x. \<bar>x\<bar> ^ 2) col))) (transpose m)"

text \<open>\<open>value[1:]\<close>.\<close>

fun slice_from1 :: "pyval \<Rightarrow> error + pyval" where
  "slice_from1 (Str cs) = Inr (Str (drop 1 cs))"
| "slice_from1 (Tuple vs) = Inr (Tuple (drop 1 vs))"
| "slice_from1 _ = Inl TypeError"

text \<open>\<open>str.lower\<close>, on the ASCII letters.\<close>

definition lower_char :: "char \<Rightarrow> char" where
  "lower_char c =
     (if 65 \<le> (of_char c :: nat) \<and> (of_char c :: nat) \<le> 90 then char_of (of_char c + 32 :: nat)
      else c)"

definition lower :: "string \<Rightarrow> string" where
  "lower cs = map lower_char cs"

text \<open>
  A rotation primitive that knows the identity rotation only, with what scipy answers for
  it: zero angles, the quaternion \<open>(0, 0, 0, 1)\<close> (scalar last) and the identity matrix. It
  serves to run the methods on concrete inputs. \<open>from_quat\<close> takes a sequence of four
  numbers; an instance of the module is none, and \<open>from_quat\<close> raises for it.
\<close>

definition identity_R :: scipy_R where
  "identity_R =
     \<lparr>euler_as_quat = (\<lambda>seq angles. if angles = [0, 0, 0] then Inr [0, 0, 0, 1] else Inl ValueError),
      euler_as_matrix = (\<lambda>seq angles. if angles = [0, 0, 0] then Inr (eye 3) else Inl ValueError),
      from_quat = (\<lambda>quat. case quat of
                      Tuple q \<Rightarrow> if q = [0, 0, 0, 1] then Inr q else Inl ValueError
                    | _ \<Rightarrow> Inl TypeError),
      quat_as_matrix = (\<lambda>q. if q = [0, 0, 0, 1] then Inr (eye 3) else Inl ValueError),
      quat_as_euler = (\<lambda>seq q. if q = [0, 0, 0, 1] then Inr [0, 0, 0] else Inl ValueError),
      matrix_as_euler = (\<lambda>seq deg m. if m = eye 3 then Inr [0, 0, 0] else Inl ValueError),
      matrix_as_quat = (\<lambda>m. if m = eye 3 then Inr [0, 0, 0, 1] else Inl ValueError)\<rparr>"

subsection \<open>RotationEuler, RotationEulerRadians, RotationEulerDegrees\<close>

text \<open>
  A call \<open>cls(*args, axes=...)\<close> of an Euler class, \<open>__init__(self, x, y, z, axes='rxyz')\<close>:
  three positional arguments, or four when no keyword is given (the fourth is then \<open>axes\<close>).
\<close>

definition RotationEuler_init ::
  "cls \<Rightarrow> real list \<Rightarrow> pyval option \<Rightarrow> state \<Rightarrow> error + ref \<times> state" where
  "RotationEuler_init c args axes_kw s =
     (if length args = 3 then
        (case Coordinates_init c args s of (r, s') \<Rightarrow>
           Inr (r, s'\<lparr>heap := (heap s')[r := (heap s' ! r)
                  \<lparr>axes := Some (case axes_kw of Some a \<Rightarrow> a | None \<Rightarrow> Str ''rxyz'')\<rparr>]\<rparr>))
      else if length args = 4 \<and> axes_kw = None then
        (case Coordinates_init c (take 3 args) s of (r, s') \<Rightarrow>
           Inr (r, s'\<lparr>heap := (heap s')[r := (heap s' ! r)\<lparr>axes := Some (Float (args ! 3))\<rparr>]\<rparr>))
      else Inl TypeError)"

definition RotationQuaternion_init :: "real list \<Rightarrow> state \<Rightarrow> error + ref \<times> state" where
  "RotationQuaternion_init args s =
     (if length args = 4 then Inr (Coordinates_init RotationQuaternion args s)
      else Inl TypeError)"

definition RotationEulerRadians_to_radians :: "ref \<Rightarrow> state \<Rightarrow> error + ref \<times> state" where
  "RotationEulerRadians_to_radians self s = Inr (self, s)"

definition RotationEulerRadians_to_degrees :: "ref \<Rightarrow> state \<Rightarrow> error + ref \<times> state" where
  "RotationEulerRadians_to_degrees self s =
     bind (getattr s (Obj self) ''axes'') (\<lambda>ax.
       RotationEuler_init RotationEulerDegrees (degrees (array (heap s ! self))) (Some ax) s)"

definition RotationEulerRadians_to_quaternion ::
  "scipy_R \<Rightarrow> ref \<Rightarrow> state \<Rightarrow> error + ref \<times> state" where
  "RotationEulerRadians_to_quaternion R self s =
     bind (getattr s (Obj self) ''_axes'') (\<lambda>ax.
     bind (slice_from1 ax) (\<lambda>seq.
     bind (euler_as_quat R seq (array (heap s ! self))) (\<lambda>q.
       RotationQuaternion_init q s)))"

definition RotationEulerRadians_to_matrix ::
  "scipy_R \<Rightarrow> ref \<Rightarrow> state \<Rightarrow> error + real list list" where
  "RotationEulerRadians_to_matrix R self s =
     bind (getattr s (Obj self) ''axes'') (\<lambda>ax.
     bind (slice_from1 ax) (\<lambda>seq.
     bind (euler_as_matrix R seq (array (heap s ! self))) (\<lambda>res.
       set_block3 (eye 4) res)))"

definition RotationEulerRadians_to_euler :: "ref \<Rightarrow> string \<Rightarrow> state \<Rightarrow> error + ref \<times> state" where
  "RotationEulerRadians_to_euler self units s =
     (if lower units \<notin> set [''rad'', ''deg''] then Inl AssertionError
      else if lower units = ''rad'' then
        bind (getattr s (Obj self) ''axes'') (\<lambda>ax.
          RotationEuler_init RotationEulerRadians (array (heap s ! self)) (Some ax) s)
      else
        bind (getattr s (Obj self) ''axes'') (\<lambda>ax.
          RotationEuler_init RotationEulerDegrees (degrees (array (heap s ! self))) (Some ax) s))"

definition RotationEulerRadians_from_matrix ::
  "scipy_R \<Rightarrow> real list list \<Rightarrow> pyval \<Rightarrow> state \<Rightarrow> error + ref \<times> state" where
  "RotationEulerRadians_from_matrix R matrix axes_arg s =
     bind (slice_from1 axes_arg) (\<lambda>seq.
     bind (matrix_as_euler R seq False (block3 matrix)) (\<lambda>coords.
       RotationEuler_init RotationEulerRadians coords None s))"

definition RotationEulerDegrees_to_radians :: "ref \<Rightarrow> state \<Rightarrow> error + ref \<times> state" where
  "RotationEulerDegrees_to_radians self s =
     bind (getattr s (Obj self) ''axes'') (\<lambda>ax.
       RotationEuler_init RotationEulerRadians (radians (array (heap s ! self))) (Some ax) s)"

definition RotationEulerDegrees_to_degrees :: "ref \<Rightarrow> state \<Rightarrow> error + ref \<times> state" where
  "RotationEulerDegrees_to_degrees self s = Inr (self, s)"

definition RotationEulerDegrees_to_quaternion ::
  "scipy_R \<Rightarrow> ref \<Rightarrow> state \<Rightarrow> error + ref \<times> state" where
  "RotationEulerDegrees_to_quaternion R self s =
     bind (RotationEulerDegrees_to_radians self s) (\<lambda>(r, s').
       RotationEulerRadians_to_quaternion R r s')"

definition RotationEulerDegrees_to_euler :: "ref \<Rightarrow> string \<Rightarrow> state \<Rightarrow> error + ref \<times> state" where
  "RotationEulerDegrees_to_euler self units s =
     bind (RotationEulerDegrees_to_radians self s) (\<lambda>(r, s').
       RotationEulerRadians_to_euler r units s')"

definition RotationEulerDegrees_to_matrix ::
  "scipy_R \<Rightarrow> ref \<Rightarrow> state \<Rightarrow> error + real list list \<times> state" where
  "RotationEulerDegrees_to_matrix R self s =
     bind (RotationEulerDegrees_to_radians self s) (\<lambda>(r, s').
     bind (RotationEulerRadians_to_matrix R r s') (\<lambda>mat. Inr (mat, s')))"

definition RotationEulerDegrees_from_matrix ::
  "scipy_R \<Rightarrow> real list list \<Rightarrow> pyval \<Rightarrow> state \<Rightarrow> error + ref \<times> state" where
  "RotationEulerDegrees_from_matrix R matrix axes_arg s =
     bind (slice_from1 axes_arg) (\<lambda>seq.
     bind (matrix_as_euler R seq True (block3 matrix)) (\<lambda>coords.
       RotationEuler_init RotationEulerDegrees coords None s))"

subsection \<open>RotationQuaternion\<close>

definition RotationQuaternion_to_quaternion :: "ref \<Rightarrow> state \<Rightarrow> error + ref \<times> state" where
  "RotationQuaternion_to_quaternion self s = Inr (self, s)"

text \<open>
  \<open>R.from_quat(self)\<close> is given the instance. In \<open>to_euler\<close> the rotation is then asked
  \<open>as_euler(axes='xyz', degrees=False)\<close>, by keywords; the assertion on \<open>units\<close> comes after.
\<close>

definition RotationQuaternion_to_matrix ::
  "scipy_R \<Rightarrow> ref \<Rightarrow> state \<Rightarrow> error + real list list" where
  "RotationQuaternion_to_matrix R self s =
     bind (from_quat R (Obj self)) (\<lambda>rotation.
     bind (quat_as_matrix R rotation) (\<lambda>res. set_block3 (eye 4) res))"

definition RotationQuaternion_to_euler ::
  "scipy_R \<Rightarrow> ref \<Rightarrow> string \<Rightarrow> state \<Rightarrow> error + ref \<times> state" where
  "RotationQuaternion_to_euler R self units s =
     bind (from_quat R (Obj self)) (\<lambda>rotation.
     bind (check_keywords [''seq'', ''degrees''] [''axes'', ''degrees'']) (\<lambda>_.
     bind (quat_as_euler R (Str ''xyz'') rotation) (\<lambda>euler_data.
       if lower units \<notin> set [''rad'', ''deg''] then Inl AssertionError
       else if lower units = ''rad'' then
         RotationEuler_init RotationEulerRadians euler_data None s
       else RotationEuler_init RotationEulerDegrees (degrees euler_data) None s)))"

subsection \<open>Scale\<close>

definition Scale_init :: "real list \<Rightarrow> state \<Rightarrow> error + ref \<times> state" where
  "Scale_init args s =
     (let vals = (if length args = 1 then args @ args @ args else args)
      in if length vals = 3 then Inr (Coordinates_init Scale vals s) else Inl AssertionError)"

definition Scale_to_matrix :: "ref \<Rightarrow> state \<Rightarrow> error + real list list" where
  "Scale_to_matrix self s =
     (let a = array (heap s ! self)
      in if length a < 3 then Inl IndexError else Inr (diag [a ! 0, a ! 1, a ! 2, 1]))"

definition Scale_from_matrix :: "real list list \<Rightarrow> state \<Rightarrow> error + ref \<times> state" where
  "Scale_from_matrix matrix s = Scale_init (linalg_norm_axis0 (block3 matrix)) s"

subsection \<open>Vector utilities\<close>

text \<open>
  The vectors are 3d, as the docstring of \<open>rotation_matrix_between_vectors\<close> says. The
  function compares a float64 number with \<open>-1.\<close>, so which inputs raise depends on how numpy
  rounds. What numpy computes before the comparison is a parameter of the function: the
  normalization \<open>vec / np.linalg.norm(vec)\<close>, \<open>np.cross\<close> and \<open>np.dot\<close>, on float64 numbers
  taken as reals. A normalization with a component that is not finite (a division by a norm
  of zero) is \<open>None\<close>; the function then returns a matrix whose entries are not finite,
  \<open>None\<close> again (a comparison with NaN or an infinity is false).
\<close>

type_synonym vec3 = "real \<times> real \<times> real"

record numpy =
  np_normalized :: "vec3 \<Rightarrow> vec3 option"
  np_cross :: "vec3 \<Rightarrow> vec3 \<Rightarrow> vec3"
  np_dot :: "vec3 \<Rightarrow> vec3 \<Rightarrow> real"

definition cross_product_matrix :: "vec3 \<Rightarrow> real list list" where
  "cross_product_matrix vec =
     (case vec of (v0, v1, v2) \<Rightarrow>
        [[0, - v2, v1],
         [v2, 0, - v0],
         [- v1, v0, 0]])"

definition mat_add :: "real list list \<Rightarrow> real list list \<Rightarrow> real list list" where
  "mat_add A B = map (\<lambda>(r, r'). map (\<lambda>(x, y). x + y) (zip r r')) (zip A B)"

definition mat_scale :: "real list list \<Rightarrow> real \<Rightarrow> real list list" where
  "mat_scale A k = map (map (\<lambda>x. x * k)) A"

definition mat_dot :: "real list list \<Rightarrow> real list list \<Rightarrow> real list list" where
  "mat_dot A B = map (\<lambda>r. map (\<lambda>c. sum_list (map (\<lambda>(x, y). x * y) (zip r c))) (transpose B)) A"

definition rotation_matrix_between_vectors ::
  "numpy \<Rightarrow> vec3 \<Rightarrow> vec3 \<Rightarrow> error + real list list option" where
  "rotation_matrix_between_vectors np from_vec to_vec =
     (case (np_normalized np from_vec, np_normalized np to_vec) of
        (Some a, Some b) \<Rightarrow>
          (let v = np_cross np a b; cos = np_dot np a b
           in if cos = - 1 then Inl ValueError
              else
                (let v_cpm = cross_product_matrix v
                 in Inr (Some (mat_add (mat_add (eye 3) v_cpm)
                                 (mat_scale (mat_dot v_cpm v_cpm) (1 / 1 + cos))))))
      | _ \<Rightarrow> Inr None)"

text \<open>The arithmetic without rounding, which that of numpy approximates.\<close>

definition linalg_norm :: "vec3 \<Rightarrow> real" where
  "linalg_norm vec = (case vec of (x, y, z) \<Rightarrow> sqrt (\<bar>x\<bar> ^ 2 + \<bar>y\<bar> ^ 2 + \<bar>z\<bar> ^ 2))"

definition normalized :: "vec3 \<Rightarrow> vec3 option" where
  "normalized vec =
     (case vec of (x, y, z) \<Rightarrow>
        if linalg_norm vec = 0 then None
        else Some (x / linalg_norm vec, y / linalg_norm vec, z / linalg_norm vec))"

definition cross :: "vec3 \<Rightarrow> vec3 \<Rightarrow> vec3" where
  "cross a b =
     (case a of (a0, a1, a2) \<Rightarrow> case b of (b0, b1, b2) \<Rightarrow>
        (a1 * b2 - a2 * b1, a2 * b0 - a0 * b2, a0 * b1 - a1 * b0))"

definition dot :: "vec3 \<Rightarrow> vec3 \<Rightarrow> real" where
  "dot a b = (case a of (a0, a1, a2) \<Rightarrow> case b of (b0, b1, b2) \<Rightarrow> a0 * b0 + a1 * b1 + a2 * b2)"

definition exact_np :: numpy where
  "exact_np = \<lparr>np_normalized = normalized, np_cross = cross, np_dot = dot\<rparr>"

text \<open>
  The arithmetic of numpy on float64. \<open>fl x\<close> is the float64 number nearest to \<open>x\<close>, ties to
  the even significand: the last place of a number in the binade of \<open>2 ^ e\<close> is
  \<open>2 ^ (e - 52)\<close>, and \<open>2 ^ (- 1074)\<close> below the normal range. It is not bounded above: a
  result from \<open>2 ^ 1024\<close> on is an overflow, which numpy gives as infinity.
\<close>

definition round_ties_even :: "real \<Rightarrow> int" where
  "round_ties_even m =
     (if m - of_int \<lfloor>m\<rfloor> < 1 / 2 then \<lfloor>m\<rfloor>
      else if m - of_int \<lfloor>m\<rfloor> > 1 / 2 then \<lfloor>m\<rfloor> + 1
      else if even \<lfloor>m\<rfloor> then \<lfloor>m\<rfloor> else \<lfloor>m\<rfloor> + 1)"

definition fl :: "real \<Rightarrow> real" where
  "fl x =
     (if x = 0 then 0
      else
        (let e = max \<lfloor>log 2 \<bar>x\<bar>\<rfloor> (- 1022) - 52
         in sgn x * of_int (round_ties_even (\<bar>x\<bar> / 2 powr of_int e)) * 2 powr of_int e))"

text \<open>
  \<open>vec / np.linalg.norm(vec)\<close>: the numbers given become float64; the norm is the square
  root of \<open>x.dot(x)\<close>, the products summed in order, each operation rounded. When the sum
  overflows the norm is infinite and the quotients are zero; when it is zero they are not
  finite.
\<close>

definition float64_normalized :: "vec3 \<Rightarrow> vec3 option" where
  "float64_normalized vec =
     (case vec of (x0, y0, z0) \<Rightarrow>
        (let x = fl x0; y = fl y0; z = fl z0;
             sqnorm = fl (fl (fl (x * x) + fl (y * y)) + fl (z * z))
         in if 2 ^ 1024 \<le> sqnorm then Some (0, 0, 0)
            else
              (let norm = fl (sqrt sqnorm)
               in if norm = 0 then None
                  else Some (fl (x / norm), fl (y / norm), fl (z / norm)))))"

definition float64_cross :: "vec3 \<Rightarrow> vec3 \<Rightarrow> vec3" where
  "float64_cross a b =
     (case a of (a0, a1, a2) \<Rightarrow> case b of (b0, b1, b2) \<Rightarrow>
        (fl (fl (a1 * b2) - fl (a2 * b1)),
         fl (fl (a2 * b0) - fl (a0 * b2)),
         fl (fl (a0 * b1) - fl (a1 * b0))))"

definition float64_dot :: "vec3 \<Rightarrow> vec3 \<Rightarrow> real" where
  "float64_dot a b =
     (case a of (a0, a1, a2) \<Rightarrow> case b of (b0, b1, b2) \<Rightarrow>
        fl (fl (fl (a0 * b0) + fl (a1 * b1)) + fl (a2 * b2)))"

definition float64_np :: numpy where
  "float64_np =
     \<lparr>np_normalized = float64_normalized, np_cross = float64_cross, np_dot = float64_dot\<rparr>"

section \<open>Properties\<close>

subsection \<open>The generated accessors\<close>

lemma set_product_repeat:
  "set (product_repeat ks n) = {w. length w = n \<and> set w \<subseteq> set ks}"
proof (induction n)
  case 0
  then show ?case by auto
next
  case (Suc n)
  show ?case
  proof (rule set_eqI)
    fix w
    show "w \<in> set (product_repeat ks (Suc n)) \<longleftrightarrow> w \<in> {w. length w = Suc n \<and> set w \<subseteq> set ks}"
      using Suc by (cases w) auto
  qed
qed

lemma map_of_graph:
  "map_of (map (\<lambda>k. (k, f k)) xs) k = (if k \<in> set xs then Some (f k) else None)"
  by (induction xs) auto

lemma map_of_concat_graph:
  "map_of (concat (map (\<lambda>n. map (\<lambda>k. (k, f k)) (g n)) ns)) k =
     (if \<exists>n \<in> set ns. k \<in> set (g n) then Some (f k) else None)"
  by (induction ns) (auto simp: map_of_graph map_add_def split: option.splits)

lemma property_lookup:
  "map_of (init_coord_properties c) args =
     (if args \<noteq> [] \<and> length args \<le> length (coords c) \<and> set args \<subseteq> fst ` set (coords c)
      then Some (gen_getter_setter_funs c args) else None)"
  unfolding init_coord_properties_def map_of_concat_graph set_product_repeat
  by (cases args) auto

lemma isl_bind: "isl (bind m f) = (case m of Inl e \<Rightarrow> True | Inr x \<Rightarrow> isl (f x))"
  by (simp add: bind_def split: sum.splits)

lemma getattr_xyz:
  "array (heap s ! r) = [a0, a1, a2] \<Longrightarrow> cls (heap s ! r) = Translation \<Longrightarrow>
   getattr s (Obj r) ''xyz'' = Inr (Tuple [a0, a1, a2])"
  by (simp add: property_lookup gen_getter_setter_funs_def getter_def take_indices_def bind_def
      Let_def)

lemma not_property_underscore_axes: "map_of (init_coord_properties c) ''_axes'' = None"
  by (cases c) (simp_all add: property_lookup)

lemma getattr_underscore_axes: "getattr s v ''_axes'' = Inl AttributeError"
  by (cases v) (simp_all add: not_property_underscore_axes)

declare getattr.simps(1) [simp del]

subsection \<open>Subtraction of translations\<close>

text \<open>
  Claim C3. \<open>t - o\<close> is to return a new Translation of the elementwise differences when \<open>o\<close>
  is another Translation or a bare sequence of length 3, and to raise a usage error for
  another length. \<open>__sub__\<close> checks the length of \<open>oth\<close> but then reads \<open>other.xyz\<close>, where
  \<open>__add__\<close> zips with \<open>oth\<close>: subtracting a bare sequence never returns, and
  \<open>Translation(1, 2, 3) - (4, 5, 6)\<close> raises AttributeError, while
  \<open>Translation(1, 2, 3) + (4, 5, 6)\<close> returns \<open>Translation(5, 7, 9)\<close>.
\<close>

theorem Translation_sub_bare_sequence:
  "isl (Translation_sub self (Tuple vs) s) \<and>
   Translation_sub 0 (Tuple [4, 5, 6]) (snd (Coordinates_init Translation [1, 2, 3] empty_state))
     = Inl AttributeError \<and>
   Translation_add 0 (Tuple [4, 5, 6]) (snd (Coordinates_init Translation [1, 2, 3] empty_state))
     = Inr (1, \<lparr>heap = [\<lparr>cls = Translation, array = [1, 2, 3], axes = None\<rparr>,
                          \<lparr>cls = Translation, array = [5, 7, 9], axes = None\<rparr>],
                  notified = []\<rparr>)"
proof (intro conjI)
  show "isl (Translation_sub self (Tuple vs) s)"
    by (simp add: Translation_sub_def isl_bind split: sum.splits)
  show "Translation_sub 0 (Tuple [4, 5, 6]) (snd (Coordinates_init Translation [1, 2, 3] empty_state))
     = Inl AttributeError"
    by (simp add: Translation_sub_def Coordinates_init_def empty_state_def bind_def getattr_xyz)
  show "Translation_add 0 (Tuple [4, 5, 6]) (snd (Coordinates_init Translation [1, 2, 3] empty_state))
     = Inr (1, \<lparr>heap = [\<lparr>cls = Translation, array = [1, 2, 3], axes = None\<rparr>,
                          \<lparr>cls = Translation, array = [5, 7, 9], axes = None\<rparr>],
                  notified = []\<rparr>)"
    by (simp add: Translation_add_def Translation_init_def Coordinates_init_def empty_state_def
        bind_def getattr_xyz)
qed

text \<open>The two parts of the claim that the code keeps.\<close>

lemma Translation_sub_Translation:
  assumes "cls (heap s ! self) = Translation" "cls (heap s ! other) = Translation"
    and "array (heap s ! self) = [a0, a1, a2]" "array (heap s ! other) = [b0, b1, b2]"
  shows "Translation_sub self (Obj other) s =
     Inr (length (heap s),
          s\<lparr>heap := heap s @ [\<lparr>cls = Translation, array = [a0 - b0, a1 - b1, a2 - b2], axes = None\<rparr>]\<rparr>)"
  using assms
  by (simp add: Translation_sub_def Translation_init_def Coordinates_init_def bind_def getattr_xyz)

lemma Translation_sub_length:
  "length vs \<noteq> 3 \<Longrightarrow> Translation_sub self (Tuple vs) s = Inl ValueError"
  by (simp add: Translation_sub_def bind_def)

subsection \<open>The quaternion of an Euler rotation\<close>

lemma not_property_axes: "map_of (init_coord_properties c) ''axes'' = None"
  by (cases c) (simp_all add: property_lookup)

lemma getattr_axes:
  "getattr s (Obj r) ''axes'' =
     (case axes (heap s ! r) of Some a \<Rightarrow> Inr a | None \<Rightarrow> Inl AttributeError)"
  by (simp add: getattr.simps(1) not_property_axes)

lemma RotationEuler_init_3:
  "RotationEuler_init c [x, y, z] kw s =
     Inr (length (heap s),
          s\<lparr>heap := heap s @ [\<lparr>cls = c, array = [x, y, z],
                 axes = Some (case kw of Some a \<Rightarrow> a | None \<Rightarrow> Str ''rxyz'')\<rparr>]\<rparr>)"
  by (simp add: RotationEuler_init_def Coordinates_init_def)

lemma eye_3: "eye 3 = [[1, 0, 0], [0, 1, 0], [0, 0, 1]]"
  by (simp add: eye_def upt_rec)

lemma eye_4: "eye 4 = [[1, 0, 0, 0], [0, 1, 0, 0], [0, 0, 1, 0], [0, 0, 0, 1]]"
  by (simp add: eye_def upt_rec)

lemma RotationEulerRadians_to_quaternion_raises:
  "RotationEulerRadians_to_quaternion R self s = Inl AttributeError"
  by (simp add: RotationEulerRadians_to_quaternion_def getattr_underscore_axes bind_def)

text \<open>
  Claim C1. For every rotation variant \<open>X\<close>, \<open>X.to_quaternion().to_matrix()\<close> is to agree
  with \<open>X.to_matrix()\<close> on the rotation block. \<open>RotationEulerRadians.to_quaternion\<close> reads
  \<open>self._axes\<close>, which no code sets (\<open>to_matrix\<close> reads \<open>self.axes\<close>): it raises
  AttributeError for every instance and every rotation primitive, and the degrees variant,
  which delegates to it, never returns either, while \<open>to_matrix\<close> of the same instance
  returns. For the quaternion variant \<open>to_quaternion\<close> returns \<open>self\<close> and the two sides are
  the same call.
\<close>

theorem Euler_to_quaternion_raises:
  "RotationEulerRadians_to_quaternion R self s = Inl AttributeError \<and>
   isl (RotationEulerDegrees_to_quaternion R self s) \<and>
   bind (RotationEuler_init RotationEulerDegrees [90, 0, 0] None empty_state)
     (\<lambda>(X, s). RotationEulerDegrees_to_quaternion R X s) = Inl AttributeError \<and>
   bind (RotationEuler_init RotationEulerRadians [0, 0, 0] None empty_state)
     (\<lambda>(X, s). RotationEulerRadians_to_quaternion identity_R X s) = Inl AttributeError \<and>
   bind (RotationEuler_init RotationEulerRadians [0, 0, 0] None empty_state)
     (\<lambda>(X, s). RotationEulerRadians_to_matrix identity_R X s) = Inr (eye 4) \<and>
   bind (RotationQuaternion_to_quaternion self s) (\<lambda>(Q, s). RotationQuaternion_to_matrix R Q s) =
     RotationQuaternion_to_matrix R self s"
proof (intro conjI)
  show "RotationEulerRadians_to_quaternion R self s = Inl AttributeError"
    by (rule RotationEulerRadians_to_quaternion_raises)
  show "isl (RotationEulerDegrees_to_quaternion R self s)"
    by (simp add: RotationEulerDegrees_to_quaternion_def isl_bind
        RotationEulerRadians_to_quaternion_raises split: sum.splits prod.splits)
  have "RotationEulerDegrees_to_radians 0
          \<lparr>heap = [\<lparr>cls = RotationEulerDegrees, array = [90, 0, 0], axes = Some (Str ''rxyz'')\<rparr>],
           notified = []\<rparr> \<noteq> Inl e" for e
    by (simp add: RotationEulerDegrees_to_radians_def getattr_axes bind_def radians_def
        RotationEuler_init_3)
  then show "bind (RotationEuler_init RotationEulerDegrees [90, 0, 0] None empty_state)
     (\<lambda>(X, s). RotationEulerDegrees_to_quaternion R X s) = Inl AttributeError"
    by (simp add: RotationEuler_init_3 empty_state_def bind_def
        RotationEulerDegrees_to_quaternion_def RotationEulerRadians_to_quaternion_raises
        split: sum.splits prod.splits)
  show "bind (RotationEuler_init RotationEulerRadians [0, 0, 0] None empty_state)
     (\<lambda>(X, s). RotationEulerRadians_to_quaternion identity_R X s) = Inl AttributeError"
    by (simp add: RotationEuler_init_3 bind_def RotationEulerRadians_to_quaternion_raises)
  show "bind (RotationEuler_init RotationEulerRadians [0, 0, 0] None empty_state)
     (\<lambda>(X, s). RotationEulerRadians_to_matrix identity_R X s) = Inr (eye 4)"
    by (simp add: RotationEuler_init_3 empty_state_def bind_def RotationEulerRadians_to_matrix_def
        getattr_axes identity_R_def set_block3_def eye_3 eye_4)
  show "bind (RotationQuaternion_to_quaternion self s) (\<lambda>(Q, s). RotationQuaternion_to_matrix R Q s) =
     RotationQuaternion_to_matrix R self s"
    by (simp add: RotationQuaternion_to_quaternion_def bind_def)
qed

subsection \<open>The axes of an instance built from a matrix\<close>

lemma RotationEuler_init_length3:
  "length args = 3 \<Longrightarrow>
   RotationEuler_init c args kw s =
     Inr (length (heap s),
          s\<lparr>heap := heap s @ [\<lparr>cls = c, array = args,
                 axes = Some (case kw of Some a \<Rightarrow> a | None \<Rightarrow> Str ''rxyz'')\<rparr>]\<rparr>)"
  by (simp add: RotationEuler_init_def Coordinates_init_def)

text \<open>
  Claim C2. The axes spec is to thread through every conversion that yields an Euler
  instance, and \<open>from_matrix(m, axes=a)\<close> is to yield an instance whose \<open>axes\<close> is \<open>a\<close>.
  \<open>from_matrix\<close> uses \<open>axes[1:]\<close> for the decomposition but returns \<open>cls(*coords)\<close> without
  the keyword (\<open>to_degrees\<close>, \<open>to_radians\<close> and \<open>to_euler\<close> pass \<open>axes=self.axes\<close>): whenever
  the primitive answers three angles, the instance carries the default \<open>rxyz\<close>, whatever
  \<open>a\<close> is.
\<close>

theorem from_matrix_drops_axes:
  "(matrix_as_euler R (Str (drop 1 a)) False (block3 m) = Inr [x, y, z] \<longrightarrow>
      RotationEulerRadians_from_matrix R m (Str a) s =
        Inr (length (heap s),
             s\<lparr>heap := heap s @ [\<lparr>cls = RotationEulerRadians, array = [x, y, z],
                                    axes = Some (Str ''rxyz'')\<rparr>]\<rparr>)) \<and>
   (matrix_as_euler R (Str (drop 1 a)) True (block3 m) = Inr [x, y, z] \<longrightarrow>
      RotationEulerDegrees_from_matrix R m (Str a) s =
        Inr (length (heap s),
             s\<lparr>heap := heap s @ [\<lparr>cls = RotationEulerDegrees, array = [x, y, z],
                                    axes = Some (Str ''rxyz'')\<rparr>]\<rparr>))"
  by (simp add: RotationEulerRadians_from_matrix_def RotationEulerDegrees_from_matrix_def
      bind_def RotationEuler_init_3)

lemma block3_eye_4: "block3 (eye 4) = eye 3"
  by (simp add: block3_def eye_3 eye_4)

theorem from_matrix_drops_axes_witness:
  "RotationEulerRadians_from_matrix identity_R (eye 4) (Str ''rzyx'') empty_state =
     Inr (0, \<lparr>heap = [\<lparr>cls = RotationEulerRadians, array = [0, 0, 0],
                         axes = Some (Str ''rxyz'')\<rparr>], notified = []\<rparr>) \<and>
   RotationEulerDegrees_from_matrix identity_R (eye 4) (Str ''rzyx'') empty_state =
     Inr (0, \<lparr>heap = [\<lparr>cls = RotationEulerDegrees, array = [0, 0, 0],
                         axes = Some (Str ''rxyz'')\<rparr>], notified = []\<rparr>)"
  using from_matrix_drops_axes [of identity_R "''rzyx''" "eye 4" 0 0 0 empty_state]
  by (simp add: identity_R_def block3_eye_4 empty_state_def)

subsection \<open>Reading and writing through an accessor\<close>

lemma length_scatter: "length (scatter a ivs) = length a"
  by (induction a ivs rule: scatter.induct) simp_all

lemma scatter_nth:
  "i < length a \<Longrightarrow>
   scatter a ivs ! i = (case map_of (rev ivs) i of Some v \<Rightarrow> v | None \<Rightarrow> a ! i)"
proof (induction a ivs rule: scatter.induct)
  case (1 a)
  then show ?case by simp
next
  case (2 a j v ivs)
  then show ?case
    by (auto simp: map_add_def nth_list_update split: option.splits)
qed

lemma coords_index_less:
  "k \<in> fst ` set (coords c) \<Longrightarrow> the (map_of (coords c) k) < length (coords c)"
  by (cases c) auto

lemma coords_index_inj:
  "k \<in> fst ` set (coords c) \<Longrightarrow> k' \<in> fst ` set (coords c) \<Longrightarrow>
   the (map_of (coords c) k) = the (map_of (coords c) k') \<Longrightarrow> k = k'"
  by (cases c) (auto split: if_splits)

lemma map_of_rev_zip_map_inj:
  assumes "\<And>k'. k' \<in> set P \<Longrightarrow> f k' = f k \<Longrightarrow> k' = k"
  shows "map_of (rev (zip (map f P) v)) (f k) = map_of (rev (zip P v)) k"
  using assms
proof (induction P arbitrary: v)
  case Nil
  then show ?case by simp
next
  case (Cons p P)
  show ?case
  proof (cases v)
    case Nil
    then show ?thesis by simp
  next
    case (Cons x xs)
    have "map_of (rev (zip (map f P) xs)) (f k) = map_of (rev (zip P xs)) k"
      using Cons.IH Cons.prems by simp
    moreover have "f p = f k \<longleftrightarrow> p = k"
      using Cons.prems by auto
    ultimately show ?thesis
      using Cons by (auto simp: map_add_def split: option.splits)
  qed
qed

lemma map_of_rev_zip_Some:
  "length v = length P \<Longrightarrow> k \<in> set P \<Longrightarrow> \<exists>x. map_of (rev (zip P v)) k = Some x"
proof -
  assume "length v = length P" "k \<in> set P"
  then have "k \<in> fst ` set (rev (zip P v))"
    by (simp add: set_zip_leftD) (metis fst_conv image_iff in_set_impl_in_set_zip1)
  then show ?thesis
    by (metis map_of_eq_None_iff not_Some_eq)
qed

lemma map_of_rev_distinct:
  "distinct (map fst xs) \<Longrightarrow> map_of (rev xs) = map_of xs"
  by (rule map_of_inject_set [THEN iffD2]) (simp_all add: distinct_rev rev_map [symmetric])

lemma map_the_map_of_zip:
  assumes "length v = length P" "distinct P"
  shows "map (\<lambda>k. the (map_of (rev (zip P v)) k)) P = v"
proof (rule nth_equalityI)
  show "length (map (\<lambda>k. the (map_of (rev (zip P v)) k)) P) = length v"
    using assms by simp
next
  fix i
  assume "i < length (map (\<lambda>k. the (map_of (rev (zip P v)) k)) P)"
  then have i: "i < length v" using assms by simp
  have "map_of (rev (zip P v)) = map_of (zip P v)"
    using assms by (intro map_of_rev_distinct) simp
  then show "map (\<lambda>k. the (map_of (rev (zip P v)) k)) P ! i = v ! i"
    using assms i map_of_zip_nth [of P v i] by simp
qed

lemma getter_reads:
  assumes "array (heap s ! self) = a" "length a = length (coords c)"
    and "P \<noteq> []" "set P \<subseteq> fst ` set (coords c)"
  shows "getter (map (\<lambda>k. the (map_of (coords c) k)) P) (length P) self s =
     Inr (if length P > 1 then Tuple (map (\<lambda>k. a ! the (map_of (coords c) k)) P)
          else Float (a ! the (map_of (coords c) (hd P))))"
proof -
  have mem: "k \<in> fst ` set (coords c)" if "k \<in> set P" for k
    using assms(4) that by blast
  have "list_all (\<lambda>i. i < length a) (map (\<lambda>k. the (map_of (coords c) k)) P)"
    using assms(2) by (simp add: list_all_iff coords_index_less mem)
  moreover have "the (map_of (coords c) (hd P)) < length a"
    using assms(2,3) by (simp add: coords_index_less mem)
  ultimately show ?thesis
    using assms(1,3) by (simp add: getter_def take_indices_def bind_def hd_map comp_def)
qed

lemma setter_writes:
  assumes "array (heap s ! self) = a" "length a = length (coords c)"
    and "set P \<subseteq> fst ` set (coords c)" "length v = length P"
  shows "setter (map (\<lambda>k. the (map_of (coords c) k)) P) self (Tuple v) s =
     Inr (notify_observers self
            (s\<lparr>heap := (heap s)[self := (heap s ! self)
               \<lparr>array := scatter a (zip (map (\<lambda>k. the (map_of (coords c) k)) P) v)\<rparr>]\<rparr>))"
proof -
  have mem: "k \<in> fst ` set (coords c)" if "k \<in> set P" for k
    using assms(3) that by blast
  have "list_all (\<lambda>i. i < length a) (map (\<lambda>k. the (map_of (coords c) k)) P)"
    using assms(2) by (simp add: list_all_iff coords_index_less mem)
  then show ?thesis
    using assms(1,4) by (simp add: setter_def setitem_def bind_def)
qed

lemma scatter_reads_last_write:
  assumes "length a = length (coords c)" "set P \<subseteq> fst ` set (coords c)"
    and "length v = length P" "k \<in> set P"
  shows "scatter a (zip (map (\<lambda>k. the (map_of (coords c) k)) P) v) ! the (map_of (coords c) k) =
     the (map_of (rev (zip P v)) k)"
proof -
  have mem: "k \<in> fst ` set (coords c)" if "k \<in> set P" for k
    using assms(2) that by blast
  have k: "k \<in> fst ` set (coords c)" using assms(4) by (rule mem)
  have "map_of (rev (zip (map (\<lambda>k. the (map_of (coords c) k)) P) v)) (the (map_of (coords c) k)) =
      map_of (rev (zip P v)) k"
    by (rule map_of_rev_zip_map_inj) (rule coords_index_inj [OF mem k])
  moreover obtain x where "map_of (rev (zip P v)) k = Some x"
    using map_of_rev_zip_Some [OF assms(3,4)] by blast
  ultimately show ?thesis
    using assms(1) k by (simp add: scatter_nth coords_index_less)
qed

text \<open>
  Claim C5. For an entity with \<open>N\<close> axes and a name \<open>P\<close> of 1 to \<open>N\<close> axis letters, repeats
  allowed, the generated property exists; its getter returns the components at the indices
  of \<open>P\<close> in the order of \<open>P\<close>, a scalar for one letter and a tuple otherwise; after its
  setter is given a sequence \<open>v\<close> of the length of \<open>P\<close>, the getter returns, for each letter,
  the value written last to it, which is \<open>v\<close> itself when no letter repeats.
\<close>

theorem accessor_get_set:
  assumes "self < length (heap s)" "cls (heap s ! self) = c"
    and "length (array (heap s ! self)) = length (coords c)"
    and "P \<noteq> []" "length P \<le> length (coords c)" "set P \<subseteq> fst ` set (coords c)"
    and "gen_getter_setter_funs c P = (fget, fset)"
  shows "map_of (init_coord_properties c) P = Some (fget, fset) \<and>
     getattr s (Obj self) P = fget self s \<and>
     fget self s =
       Inr (if length P = 1 then Float (array (heap s ! self) ! the (map_of (coords c) (hd P)))
            else Tuple (map (\<lambda>k. array (heap s ! self) ! the (map_of (coords c) k)) P)) \<and>
     (\<forall>v. length v = length P \<longrightarrow>
        (\<exists>s'. fset self (Tuple v) s = Inr s' \<and>
           fget self s' =
             Inr (if length P = 1 then Float (hd v)
                  else Tuple (map (\<lambda>k. the (map_of (rev (zip P v)) k)) P)) \<and>
           (distinct P \<longrightarrow>
              fget self s' = Inr (if length P = 1 then Float (hd v) else Tuple v))))"
proof (intro conjI allI impI)
  let ?idx = "\<lambda>k. the (map_of (coords c) k)"
  let ?a = "array (heap s ! self)"
  have fget: "fget = getter (map ?idx P) (length P)" and fset: "fset = setter (map ?idx P)"
    using assms(7) by (auto simp: gen_getter_setter_funs_def Let_def)
  have len1: "length P > 1 \<longleftrightarrow> length P \<noteq> 1"
    using assms(4) by (cases P) auto
  show look: "map_of (init_coord_properties c) P = Some (fget, fset)"
    using assms(4,5,6,7) by (simp add: property_lookup)
  show "getattr s (Obj self) P = fget self s"
    using look assms(2) by (simp add: getattr.simps(1))
  show "fget self s =
       Inr (if length P = 1 then Float (?a ! ?idx (hd P)) else Tuple (map (\<lambda>k. ?a ! ?idx k) P))"
    unfolding fget using getter_reads [OF refl assms(3,4,6)] len1 by simp
  fix v :: "real list"
  assume v: "length v = length P"
  define a' where "a' = scatter ?a (zip (map ?idx P) v)"
  define s' where "s' = notify_observers self (s\<lparr>heap := (heap s)[self := (heap s ! self)\<lparr>array := a'\<rparr>]\<rparr>)"
  have set: "fset self (Tuple v) s = Inr s'"
    unfolding fset s'_def a'_def using setter_writes [OF refl assms(3,6) v] by simp
  have arr: "array (heap s' ! self) = a'"
    using assms(1) by (simp add: s'_def notify_observers_def)
  have "length a' = length (coords c)"
    using assms(3) by (simp add: a'_def length_scatter)
  note get' = getter_reads [OF arr this assms(4,6)]
  have vals: "map (\<lambda>k. a' ! ?idx k) P = map (\<lambda>k. the (map_of (rev (zip P v)) k)) P"
    unfolding a'_def using scatter_reads_last_write [OF assms(3,6) v] by simp
  have one: "a' ! ?idx (hd P) = hd v" if len: "length P = 1"
  proof -
    obtain k where P: "P = [k]" using len by (cases P) auto
    then obtain x where "v = [x]" using v by (cases v) auto
    with P show ?thesis
      using scatter_reads_last_write [OF assms(3,6) v, of k] by (simp add: a'_def)
  qed
  have get: "fget self s' =
      Inr (if length P = 1 then Float (hd v)
           else Tuple (map (\<lambda>k. the (map_of (rev (zip P v)) k)) P))"
    unfolding fget using get' len1 vals one by simp
  have "fget self s' = Inr (if length P = 1 then Float (hd v) else Tuple v)" if "distinct P"
    using get map_the_map_of_zip [OF v that] by simp
  with set get show "\<exists>s'. fset self (Tuple v) s = Inr s' \<and>
           fget self s' =
             Inr (if length P = 1 then Float (hd v)
                  else Tuple (map (\<lambda>k. the (map_of (rev (zip P v)) k)) P)) \<and>
           (distinct P \<longrightarrow>
              fget self s' = Inr (if length P = 1 then Float (hd v) else Tuple v))"
    by blast
qed

theorem accessor_get_set_witness:
  "getattr \<lparr>heap = [\<lparr>cls = Translation, array = [1, 2, 3], axes = None\<rparr>], notified = []\<rparr>
     (Obj 0) ''zx'' = Inr (Tuple [3, 1]) \<and>
   (\<exists>s'. snd (gen_getter_setter_funs Translation ''zx'') 0 (Tuple [7, 8])
            \<lparr>heap = [\<lparr>cls = Translation, array = [1, 2, 3], axes = None\<rparr>], notified = []\<rparr>
          = Inr s' \<and>
        fst (gen_getter_setter_funs Translation ''zx'') 0 s' = Inr (Tuple [7, 8])) \<and>
   (\<exists>s'. snd (gen_getter_setter_funs Translation ''xx'') 0 (Tuple [7, 8])
            \<lparr>heap = [\<lparr>cls = Translation, array = [1, 2, 3], axes = None\<rparr>], notified = []\<rparr>
          = Inr s' \<and>
        fst (gen_getter_setter_funs Translation ''xx'') 0 s' = Inr (Tuple [8, 8]))"
proof -
  let ?s = "\<lparr>heap = [\<lparr>cls = Translation, array = [1, 2, 3], axes = None\<rparr>], notified = []\<rparr>"
  have zx: "gen_getter_setter_funs Translation ''zx'' =
      (fst (gen_getter_setter_funs Translation ''zx''), snd (gen_getter_setter_funs Translation ''zx''))"
    and xx: "gen_getter_setter_funs Translation ''xx'' =
      (fst (gen_getter_setter_funs Translation ''xx''), snd (gen_getter_setter_funs Translation ''xx''))"
    by simp_all
  have 1: "getattr ?s (Obj 0) ''zx'' = Inr (Tuple [3, 1])"
    using accessor_get_set [of 0 ?s Translation "''zx''", OF _ _ _ _ _ _ zx] by simp
  have 2: "\<exists>s'. snd (gen_getter_setter_funs Translation ''zx'') 0 (Tuple [7, 8]) ?s = Inr s' \<and>
        fst (gen_getter_setter_funs Translation ''zx'') 0 s' = Inr (Tuple [7, 8])"
    using accessor_get_set [of 0 ?s Translation "''zx''", OF _ _ _ _ _ _ zx, THEN conjunct2,
        THEN conjunct2, THEN conjunct2, THEN spec, of "[7, 8]"]
    by auto
  have 3: "\<exists>s'. snd (gen_getter_setter_funs Translation ''xx'') 0 (Tuple [7, 8]) ?s = Inr s' \<and>
        fst (gen_getter_setter_funs Translation ''xx'') 0 s' = Inr (Tuple [8, 8])"
    using accessor_get_set [of 0 ?s Translation "''xx''", OF _ _ _ _ _ _ xx, THEN conjunct2,
        THEN conjunct2, THEN conjunct2, THEN spec, of "[7, 8]"]
    by auto
  from 1 2 3 show ?thesis by blast
qed

subsection \<open>The change notification\<close>

lemma property_is_generated:
  "map_of (init_coord_properties c) name = Some p \<Longrightarrow> p = gen_getter_setter_funs c name"
  by (simp add: property_lookup split: if_splits)

text \<open>
  Claim C9. A set through a generated accessor writes the components and calls the observer
  hook exactly once, after the write and before it returns, and does nothing else: the
  returned store has one more notification, which carries the array as written, and differs
  from the old store in the array of the receiver only.
\<close>

theorem setter_notifies_once:
  assumes "self < length (heap s)"
    and "map_of (init_coord_properties (cls (heap s ! self))) name = Some (fget, fset)"
    and "fset self val s = Inr s'"
  shows "notified s' = notified s @ [(self, array (heap s' ! self))] \<and>
     heap s' = (heap s)[self := (heap s ! self)\<lparr>array := array (heap s' ! self)\<rparr>] \<and>
     setitem (array (heap s ! self))
       (map (\<lambda>coord. the (map_of (coords (cls (heap s ! self))) coord)) name) val =
         Inr (array (heap s' ! self))"
proof -
  let ?indices = "map (\<lambda>coord. the (map_of (coords (cls (heap s ! self))) coord)) name"
  have "fset = setter ?indices"
    using property_is_generated [OF assms(2)] by (simp add: gen_getter_setter_funs_def Let_def)
  with assms(3) obtain a where a: "setitem (array (heap s ! self)) ?indices val = Inr a"
    and s': "s' = notify_observers self (s\<lparr>heap := (heap s)[self := (heap s ! self)\<lparr>array := a\<rparr>]\<rparr>)"
    by (auto simp: setter_def bind_def split: sum.splits)
  have "array (heap s' ! self) = a"
    using assms(1) by (simp add: s' notify_observers_def)
  with a s' assms(1) show ?thesis
    by (simp add: notify_observers_def)
qed

theorem setter_notifies_once_witness:
  "snd (gen_getter_setter_funs Translation ''x'') 0 (Float 5)
     \<lparr>heap = [\<lparr>cls = Translation, array = [1, 2, 3], axes = None\<rparr>], notified = []\<rparr> =
   Inr \<lparr>heap = [\<lparr>cls = Translation, array = [5, 2, 3], axes = None\<rparr>],
        notified = [(0, [5, 2, 3])]\<rparr> \<and>
   notified \<lparr>heap = [\<lparr>cls = Translation, array = [5, 2, 3], axes = None\<rparr>],
             notified = [(0, [5, 2, 3])]\<rparr> = [] @ [(0, [5, 2, 3])]"
proof -
  let ?s = "\<lparr>heap = [\<lparr>cls = Translation, array = [1, 2, 3], axes = None\<rparr>], notified = []\<rparr>"
  let ?s' = "\<lparr>heap = [\<lparr>cls = Translation, array = [5, 2, 3], axes = None\<rparr>],
             notified = [(0, [5, 2, 3])]\<rparr>"
  have look: "map_of (init_coord_properties (cls (heap ?s ! 0))) ''x'' =
      Some (fst (gen_getter_setter_funs Translation ''x''), snd (gen_getter_setter_funs Translation ''x''))"
    by (simp add: property_lookup)
  have run: "snd (gen_getter_setter_funs Translation ''x'') 0 (Float 5) ?s = Inr ?s'"
    by (simp add: gen_getter_setter_funs_def Let_def setter_def setitem_def bind_def
        notify_observers_def)
  have "0 < length (heap ?s)" by simp
  from setter_notifies_once [OF this look run] run show ?thesis by simp
qed

subsection \<open>The conversions between the Euler variants\<close>

lemma RotationEulerRadians_to_degrees_result:
  assumes "array (heap s ! self) = [x, y, z]" "axes (heap s ! self) = Some ax"
  shows "RotationEulerRadians_to_degrees self s =
     Inr (length (heap s),
          s\<lparr>heap := heap s @
            [\<lparr>cls = RotationEulerDegrees, array = degrees [x, y, z], axes = Some ax\<rparr>]\<rparr>)"
  using assms
  by (simp add: RotationEulerRadians_to_degrees_def getattr_axes bind_def degrees_def
      RotationEuler_init_3)

lemma RotationEulerDegrees_to_radians_result:
  assumes "array (heap s ! self) = [x, y, z]" "axes (heap s ! self) = Some ax"
  shows "RotationEulerDegrees_to_radians self s =
     Inr (length (heap s),
          s\<lparr>heap := heap s @
            [\<lparr>cls = RotationEulerRadians, array = radians [x, y, z], axes = Some ax\<rparr>]\<rparr>)"
  using assms
  by (simp add: RotationEulerDegrees_to_radians_def getattr_axes bind_def radians_def
      RotationEuler_init_3)

lemma RotationEulerRadians_to_euler_result:
  assumes "array (heap s ! self) = [x, y, z]" "axes (heap s ! self) = Some ax"
  shows "RotationEulerRadians_to_euler self units s =
     (if lower units = ''rad'' then
        Inr (length (heap s),
             s\<lparr>heap := heap s @
               [\<lparr>cls = RotationEulerRadians, array = [x, y, z], axes = Some ax\<rparr>]\<rparr>)
      else if lower units = ''deg'' then
        Inr (length (heap s),
             s\<lparr>heap := heap s @
               [\<lparr>cls = RotationEulerDegrees, array = degrees [x, y, z], axes = Some ax\<rparr>]\<rparr>)
      else Inl AssertionError)"
  using assms
  by (simp add: RotationEulerRadians_to_euler_def getattr_axes bind_def degrees_def
      RotationEuler_init_3)

lemma RotationEulerDegrees_to_euler_result:
  assumes "array (heap s ! self) = [x, y, z]" "axes (heap s ! self) = Some ax"
  shows "RotationEulerDegrees_to_euler self units s =
     (if lower units = ''rad'' then
        Inr (Suc (length (heap s)),
             s\<lparr>heap := heap s @
               [\<lparr>cls = RotationEulerRadians, array = radians [x, y, z], axes = Some ax\<rparr>,
                \<lparr>cls = RotationEulerRadians, array = radians [x, y, z], axes = Some ax\<rparr>]\<rparr>)
      else if lower units = ''deg'' then
        Inr (Suc (length (heap s)),
             s\<lparr>heap := heap s @
               [\<lparr>cls = RotationEulerRadians, array = radians [x, y, z], axes = Some ax\<rparr>,
                \<lparr>cls = RotationEulerDegrees, array = degrees (radians [x, y, z]),
                 axes = Some ax\<rparr>]\<rparr>)
      else Inl AssertionError)"
proof -
  let ?s1 = "s\<lparr>heap := heap s @
            [\<lparr>cls = RotationEulerRadians, array = [x * pi / 180, y * pi / 180, z * pi / 180],
              axes = Some ax\<rparr>]\<rparr>"
  have 1: "RotationEulerDegrees_to_radians self s = Inr (length (heap s), ?s1)"
    using RotationEulerDegrees_to_radians_result [OF assms] by (simp add: radians_def)
  have 2: "array (heap ?s1 ! length (heap s)) = [x * pi / 180, y * pi / 180, z * pi / 180]"
    "axes (heap ?s1 ! length (heap s)) = Some ax"
    by simp_all
  have 3: "RotationEulerDegrees_to_euler self units s =
      RotationEulerRadians_to_euler (length (heap s)) units ?s1"
    unfolding RotationEulerDegrees_to_euler_def 1 by (simp add: bind_def)
  show ?thesis
    unfolding 3 RotationEulerRadians_to_euler_result [OF 2]
    by (simp add: radians_def)
qed

lemma RotationQuaternion_to_euler_raises:
  "isl (RotationQuaternion_to_euler R self units s)"
  by (simp add: RotationQuaternion_to_euler_def check_keywords_def isl_bind split: sum.splits)

subsection \<open>The units of to\_euler\<close>

lemma lower_examples:
  "lower ''RAD'' = ''rad''" "lower ''DEG'' = ''deg''" "lower ''rad'' = ''rad''"
  "lower ''deg'' = ''deg''" "lower ''bad'' = ''bad''" "lower ''Deg'' = ''deg''"
  by code_simp+

text \<open>
  Claim C8. For every rotation variant, \<open>to_euler(units)\<close> is to take \<open>units\<close> without
  regard to case: an error for a lowercase form other than \<open>rad\<close> and \<open>deg\<close>, and the same
  result for \<open>RAD\<close> as for \<open>rad\<close>. The two Euler variants do so: the result is decided by
  \<open>units.lower()\<close>, a new radians instance for \<open>rad\<close>, a new degrees instance for \<open>deg\<close>, and a
  failed assertion otherwise. \<open>RotationQuaternion.to_euler\<close> never returns, whatever the
  units: before the assertion it hands the instance itself to \<open>R.from_quat\<close> and calls
  \<open>as_euler\<close> with the keyword \<open>axes\<close>, which \<open>as_euler\<close> does not have (the Euler classes
  pass the sequence by position).
\<close>

theorem to_euler_units:
  "isl (RotationQuaternion_to_euler R self units s) \<and>
   (array (heap s ! self) = [x, y, z] \<and> axes (heap s ! self) = Some ax \<longrightarrow>
      RotationEulerRadians_to_euler self units s =
        (if lower units = ''rad'' then
           Inr (length (heap s),
                s\<lparr>heap := heap s @
                  [\<lparr>cls = RotationEulerRadians, array = [x, y, z], axes = Some ax\<rparr>]\<rparr>)
         else if lower units = ''deg'' then
           Inr (length (heap s),
                s\<lparr>heap := heap s @
                  [\<lparr>cls = RotationEulerDegrees, array = degrees [x, y, z], axes = Some ax\<rparr>]\<rparr>)
         else Inl AssertionError) \<and>
      RotationEulerDegrees_to_euler self units s =
        (if lower units = ''rad'' then
           Inr (Suc (length (heap s)),
                s\<lparr>heap := heap s @
                  [\<lparr>cls = RotationEulerRadians, array = radians [x, y, z], axes = Some ax\<rparr>,
                   \<lparr>cls = RotationEulerRadians, array = radians [x, y, z], axes = Some ax\<rparr>]\<rparr>)
         else if lower units = ''deg'' then
           Inr (Suc (length (heap s)),
                s\<lparr>heap := heap s @
                  [\<lparr>cls = RotationEulerRadians, array = radians [x, y, z], axes = Some ax\<rparr>,
                   \<lparr>cls = RotationEulerDegrees, array = degrees (radians [x, y, z]),
                    axes = Some ax\<rparr>]\<rparr>)
         else Inl AssertionError))"
  using RotationQuaternion_to_euler_raises [of R self units s]
    RotationEulerRadians_to_euler_result [of s self x y z ax units]
    RotationEulerDegrees_to_euler_result [of s self x y z ax units]
  by blast

theorem to_euler_units_witness:
  "isl (RotationQuaternion_to_euler identity_R 0 ''rad''
          \<lparr>heap = [\<lparr>cls = RotationQuaternion, array = [0, 0, 0, 1], axes = None\<rparr>],
           notified = []\<rparr>) \<and>
   RotationEulerRadians_to_euler 0 ''RAD''
     \<lparr>heap = [\<lparr>cls = RotationEulerRadians, array = [pi, 0, 0], axes = Some (Str ''rzyx'')\<rparr>],
      notified = []\<rparr> =
     Inr (1, \<lparr>heap = [\<lparr>cls = RotationEulerRadians, array = [pi, 0, 0], axes = Some (Str ''rzyx'')\<rparr>,
                      \<lparr>cls = RotationEulerRadians, array = [pi, 0, 0], axes = Some (Str ''rzyx'')\<rparr>],
              notified = []\<rparr>) \<and>
   RotationEulerRadians_to_euler 0 ''Deg''
     \<lparr>heap = [\<lparr>cls = RotationEulerRadians, array = [pi, 0, 0], axes = Some (Str ''rzyx'')\<rparr>],
      notified = []\<rparr> =
     Inr (1, \<lparr>heap = [\<lparr>cls = RotationEulerRadians, array = [pi, 0, 0], axes = Some (Str ''rzyx'')\<rparr>,
                      \<lparr>cls = RotationEulerDegrees, array = [180, 0, 0], axes = Some (Str ''rzyx'')\<rparr>],
              notified = []\<rparr>) \<and>
   RotationEulerRadians_to_euler 0 ''bad''
     \<lparr>heap = [\<lparr>cls = RotationEulerRadians, array = [pi, 0, 0], axes = Some (Str ''rzyx'')\<rparr>],
      notified = []\<rparr> = Inl AssertionError \<and>
   RotationEulerDegrees_to_euler 0 ''RAD''
     \<lparr>heap = [\<lparr>cls = RotationEulerDegrees, array = [180, 0, 0], axes = Some (Str ''rzyx'')\<rparr>],
      notified = []\<rparr> =
     Inr (2, \<lparr>heap = [\<lparr>cls = RotationEulerDegrees, array = [180, 0, 0], axes = Some (Str ''rzyx'')\<rparr>,
                      \<lparr>cls = RotationEulerRadians, array = [pi, 0, 0], axes = Some (Str ''rzyx'')\<rparr>,
                      \<lparr>cls = RotationEulerRadians, array = [pi, 0, 0], axes = Some (Str ''rzyx'')\<rparr>],
              notified = []\<rparr>) \<and>
   RotationEulerDegrees_to_euler 0 ''Deg''
     \<lparr>heap = [\<lparr>cls = RotationEulerDegrees, array = [180, 0, 0], axes = Some (Str ''rzyx'')\<rparr>],
      notified = []\<rparr> =
     Inr (2, \<lparr>heap = [\<lparr>cls = RotationEulerDegrees, array = [180, 0, 0], axes = Some (Str ''rzyx'')\<rparr>,
                      \<lparr>cls = RotationEulerRadians, array = [pi, 0, 0], axes = Some (Str ''rzyx'')\<rparr>,
                      \<lparr>cls = RotationEulerDegrees, array = [180, 0, 0], axes = Some (Str ''rzyx'')\<rparr>],
              notified = []\<rparr>) \<and>
   RotationEulerDegrees_to_euler 0 ''bad''
     \<lparr>heap = [\<lparr>cls = RotationEulerDegrees, array = [180, 0, 0], axes = Some (Str ''rzyx'')\<rparr>],
      notified = []\<rparr> = Inl AssertionError"
proof -
  let ?sQ = "\<lparr>heap = [\<lparr>cls = RotationQuaternion, array = [0, 0, 0, 1], axes = None\<rparr>],
             notified = []\<rparr>"
  let ?sR = "\<lparr>heap = [\<lparr>cls = RotationEulerRadians, array = [pi, 0, 0], axes = Some (Str ''rzyx'')\<rparr>],
             notified = []\<rparr>"
  let ?sD = "\<lparr>heap = [\<lparr>cls = RotationEulerDegrees, array = [180, 0, 0], axes = Some (Str ''rzyx'')\<rparr>],
             notified = []\<rparr>"
  have q: "isl (RotationQuaternion_to_euler identity_R 0 ''rad'' ?sQ)"
    using to_euler_units [of identity_R 0 "''rad''" ?sQ] by blast
  have r: "array (heap ?sR ! 0) = [pi, 0, 0] \<and> axes (heap ?sR ! 0) = Some (Str ''rzyx'')"
    and d: "array (heap ?sD ! 0) = [180, 0, 0] \<and> axes (heap ?sD ! 0) = Some (Str ''rzyx'')"
    by simp_all
  note R = to_euler_units [of _ 0 _ ?sR pi 0 0 "Str ''rzyx''", THEN conjunct2, THEN mp, OF r,
      THEN conjunct1]
  note D = to_euler_units [of _ 0 _ ?sD 180 0 0 "Str ''rzyx''", THEN conjunct2, THEN mp, OF d,
      THEN conjunct2]
  show ?thesis
    using q R [of "''RAD''"] R [of "''Deg''"] R [of "''bad''"]
      D [of "''RAD''"] D [of "''Deg''"] D [of "''bad''"]
    by (simp add: lower_examples degrees_def radians_def)
qed

subsection \<open>Scale and the column norms\<close>

lemma length_4E:
  assumes "length xs = 4"
  obtains a b c d where "xs = [a, b, c, d]"
proof -
  from assms obtain a xs1 where 1: "xs = a # xs1" "length xs1 = 3" by (cases xs) auto
  then obtain b xs2 where 2: "xs1 = b # xs2" "length xs2 = 2" by (cases xs1) auto
  then obtain c xs3 where 3: "xs2 = c # xs3" "length xs3 = 1" by (cases xs2) auto
  then obtain d where "xs3 = [d]" by (cases xs3) auto
  with 1 2 3 that show ?thesis by simp
qed

lemma linalg_norm_axis0_3x3:
  "linalg_norm_axis0 [[a0, a1, a2], [b0, b1, b2], [c0, c1, c2]] =
     [sqrt (a0\<^sup>2 + b0\<^sup>2 + c0\<^sup>2), sqrt (a1\<^sup>2 + b1\<^sup>2 + c1\<^sup>2), sqrt (a2\<^sup>2 + b2\<^sup>2 + c2\<^sup>2)]"
  by (simp add: linalg_norm_axis0_def)

lemma getattr_xyz_Scale:
  "array (heap s ! r) = [a0, a1, a2] \<Longrightarrow> cls (heap s ! r) = Scale \<Longrightarrow>
   getattr s (Obj r) ''xyz'' = Inr (Tuple [a0, a1, a2])"
  by (simp add: getattr.simps(1) property_lookup gen_getter_setter_funs_def getter_def
      take_indices_def bind_def Let_def)

lemma diag_4: "diag [x, y, z, w] = [[x, 0, 0, 0], [0, y, 0, 0], [0, 0, z, 0], [0, 0, 0, w]]"
  by (simp add: diag_def upt_rec)

text \<open>
  Claim C10. For a 4x4 matrix, \<open>Scale.from_matrix\<close> returns a Scale whose components are the
  Euclidean norms of the columns of the top-left 3x3 block, hence nonnegative; a Scale read
  back from its own matrix has the absolute values of its components, so \<open>Scale(-2, 1, 1)\<close>
  comes back as \<open>(2, 1, 1)\<close>.
\<close>

theorem Scale_from_matrix_column_norms:
  "(length m = 4 \<and> list_all (\<lambda>row. length row = 4) m \<longrightarrow>
      Scale_from_matrix m s =
        Inr (length (heap s),
             s\<lparr>heap := heap s @
               [\<lparr>cls = Scale,
                 array = map (\<lambda>j. sqrt ((m ! 0 ! j)\<^sup>2 + (m ! 1 ! j)\<^sup>2 + (m ! 2 ! j)\<^sup>2)) [0, 1, 2],
                 axes = None\<rparr>]\<rparr>) \<and>
      list_all (\<lambda>x. 0 \<le> x)
        (map (\<lambda>j. sqrt ((m ! 0 ! j)\<^sup>2 + (m ! 1 ! j)\<^sup>2 + (m ! 2 ! j)\<^sup>2)) [0, 1, 2])) \<and>
   bind (Scale_init [x, y, z] s) (\<lambda>(X, s).
   bind (Scale_to_matrix X s) (\<lambda>matrix.
   bind (Scale_from_matrix matrix s) (\<lambda>(Y, s).
     getattr s (Obj Y) ''xyz''))) = Inr (Tuple [\<bar>x\<bar>, \<bar>y\<bar>, \<bar>z\<bar>]) \<and>
   bind (Scale_init [- 2, 1, 1] empty_state) (\<lambda>(X, s).
   bind (Scale_to_matrix X s) (\<lambda>matrix.
   bind (Scale_from_matrix matrix s) (\<lambda>(Y, s).
     getattr s (Obj Y) ''xyz''))) = Inr (Tuple [2, 1, 1])"
proof (intro conjI)
  show "length m = 4 \<and> list_all (\<lambda>row. length row = 4) m \<longrightarrow>
      Scale_from_matrix m s =
        Inr (length (heap s),
             s\<lparr>heap := heap s @
               [\<lparr>cls = Scale,
                 array = map (\<lambda>j. sqrt ((m ! 0 ! j)\<^sup>2 + (m ! 1 ! j)\<^sup>2 + (m ! 2 ! j)\<^sup>2)) [0, 1, 2],
                 axes = None\<rparr>]\<rparr>) \<and>
      list_all (\<lambda>x. 0 \<le> x)
        (map (\<lambda>j. sqrt ((m ! 0 ! j)\<^sup>2 + (m ! 1 ! j)\<^sup>2 + (m ! 2 ! j)\<^sup>2)) [0, 1, 2])"
  proof (rule impI)
    assume a: "length m = 4 \<and> list_all (\<lambda>row. length row = 4) m"
    then obtain r0 r1 r2 r3 where m: "m = [r0, r1, r2, r3]"
      by (auto elim: length_4E)
    with a have "length r0 = 4" "length r1 = 4" "length r2 = 4" by simp_all
    then obtain a0 a1 a2 a3 b0 b1 b2 b3 c0 c1 c2 c3
      where rows: "r0 = [a0, a1, a2, a3]" "r1 = [b0, b1, b2, b3]" "r2 = [c0, c1, c2, c3]"
      by (metis length_4E)
    have "block3 m = [[a0, a1, a2], [b0, b1, b2], [c0, c1, c2]]"
      by (simp add: block3_def m rows)
    then show "Scale_from_matrix m s =
        Inr (length (heap s),
             s\<lparr>heap := heap s @
               [\<lparr>cls = Scale,
                 array = map (\<lambda>j. sqrt ((m ! 0 ! j)\<^sup>2 + (m ! 1 ! j)\<^sup>2 + (m ! 2 ! j)\<^sup>2)) [0, 1, 2],
                 axes = None\<rparr>]\<rparr>) \<and>
      list_all (\<lambda>x. 0 \<le> x)
        (map (\<lambda>j. sqrt ((m ! 0 ! j)\<^sup>2 + (m ! 1 ! j)\<^sup>2 + (m ! 2 ! j)\<^sup>2)) [0, 1, 2])"
      by (simp add: Scale_from_matrix_def linalg_norm_axis0_3x3 Scale_init_def
          Coordinates_init_def m rows)
  qed
next
  show round: "bind (Scale_init [x, y, z] s) (\<lambda>(X, s).
   bind (Scale_to_matrix X s) (\<lambda>matrix.
   bind (Scale_from_matrix matrix s) (\<lambda>(Y, s).
     getattr s (Obj Y) ''xyz''))) = Inr (Tuple [\<bar>x\<bar>, \<bar>y\<bar>, \<bar>z\<bar>])" for x y z s
    by (simp add: Scale_init_def Coordinates_init_def bind_def Scale_to_matrix_def diag_4
        Scale_from_matrix_def block3_def linalg_norm_axis0_3x3 getattr_xyz_Scale nth_append)
  show "bind (Scale_init [- 2, 1, 1] empty_state) (\<lambda>(X, s).
   bind (Scale_to_matrix X s) (\<lambda>matrix.
   bind (Scale_from_matrix matrix s) (\<lambda>(Y, s).
     getattr s (Obj Y) ''xyz''))) = Inr (Tuple [2, 1, 1])"
    using round [of "- 2" 1 1 empty_state] by simp
qed

theorem Scale_from_matrix_column_norms_witness:
  "Scale_from_matrix [[0, 3, 0, 7], [4, 0, 0, 8], [0, 4, 1, 9], [0, 0, 0, 1]] empty_state =
     Inr (0, \<lparr>heap = [\<lparr>cls = Scale, array = [4, 5, 1], axes = None\<rparr>], notified = []\<rparr>)"
proof -
  have "sqrt 16 = 4" "sqrt 25 = 5"
    by (rule real_sqrt_unique; simp)+
  then show ?thesis
    using Scale_from_matrix_column_norms
      [of "[[0, 3, 0, 7], [4, 0, 0, 8], [0, 4, 1, 9], [0, 0, 0, 1]]" empty_state]
    by (simp add: empty_state_def)
qed

subsection \<open>Which conversions return a new instance\<close>

lemma RotationEuler_init_extends:
  "RotationEuler_init c args kw s = Inr (r, s') \<Longrightarrow>
   r = length (heap s) \<and> length (heap s') = Suc (length (heap s)) \<and>
   take (length (heap s)) (heap s') = heap s"
  by (auto simp: RotationEuler_init_def Coordinates_init_def split: if_splits)

lemma RotationEulerRadians_to_degrees_extends:
  "RotationEulerRadians_to_degrees self s = Inr (r, s') \<Longrightarrow>
   r = length (heap s) \<and> length (heap s') = Suc (length (heap s)) \<and>
   take (length (heap s)) (heap s') = heap s"
  by (auto simp: RotationEulerRadians_to_degrees_def bind_def split: sum.splits
      dest: RotationEuler_init_extends)

lemma RotationEulerDegrees_to_radians_extends:
  "RotationEulerDegrees_to_radians self s = Inr (r, s') \<Longrightarrow>
   r = length (heap s) \<and> length (heap s') = Suc (length (heap s)) \<and>
   take (length (heap s)) (heap s') = heap s"
  by (auto simp: RotationEulerDegrees_to_radians_def bind_def split: sum.splits
      dest: RotationEuler_init_extends)

lemma RotationEulerRadians_to_euler_extends:
  "RotationEulerRadians_to_euler self units s = Inr (r, s') \<Longrightarrow>
   r = length (heap s) \<and> length (heap s') = Suc (length (heap s)) \<and>
   take (length (heap s)) (heap s') = heap s"
  by (auto simp: RotationEulerRadians_to_euler_def bind_def split: sum.splits if_splits
      dest: RotationEuler_init_extends)

lemma RotationEulerDegrees_to_euler_extends:
  assumes "RotationEulerDegrees_to_euler self units s = Inr (r, s')"
  shows "r = Suc (length (heap s)) \<and> length (heap s') = Suc (Suc (length (heap s))) \<and>
   take (length (heap s)) (heap s') = heap s"
proof -
  from assms obtain r1 s1 where 1: "RotationEulerDegrees_to_radians self s = Inr (r1, s1)"
    and 2: "RotationEulerRadians_to_euler r1 units s1 = Inr (r, s')"
    by (auto simp: RotationEulerDegrees_to_euler_def bind_def split: sum.splits)
  note a = RotationEulerDegrees_to_radians_extends [OF 1]
    and b = RotationEulerRadians_to_euler_extends [OF 2]
  have "take (length (heap s)) (heap s') = take (length (heap s)) (take (length (heap s1)) (heap s'))"
    using a by simp
  with a b show ?thesis by simp
qed

lemma setter_frame:
  "setter indices a val s = Inr t \<Longrightarrow> b \<noteq> a \<Longrightarrow> heap t ! b = heap s ! b"
  by (auto simp: setter_def bind_def notify_observers_def split: sum.splits)

lemma take_nth_eq: "take n xs = ys \<Longrightarrow> i < n \<Longrightarrow> xs ! i = ys ! i"
  by auto

text \<open>
  Claim C4. Every conversion is to return a new instance, independent of the receiver, in
  particular \<open>RotationEulerRadians.to_radians\<close>, \<open>RotationEulerDegrees.to_degrees\<close> and
  \<open>RotationQuaternion.to_quaternion\<close>. These three return \<open>self\<close>: after
  \<open>Y = X.to_radians()\<close> and \<open>Y.x = 5\<close>, \<open>X is Y\<close> holds and \<open>X.x\<close> reads 5; likewise for the
  other two.
\<close>

theorem identity_conversion_aliases_counterexample:
  "bind (RotationEuler_init RotationEulerRadians [1, 2, 3] None empty_state) (\<lambda>(X, s).
   bind (RotationEulerRadians_to_radians X s) (\<lambda>(Y, s).
   bind (snd (gen_getter_setter_funs RotationEulerRadians ''x'') Y (Float 5) s) (\<lambda>s.
   bind (getattr s (Obj X) ''x'') (\<lambda>x. Inr (X = Y, x))))) = Inr (True, Float 5) \<and>
   bind (RotationEuler_init RotationEulerDegrees [1, 2, 3] None empty_state) (\<lambda>(X, s).
   bind (RotationEulerDegrees_to_degrees X s) (\<lambda>(Y, s).
   bind (snd (gen_getter_setter_funs RotationEulerDegrees ''x'') Y (Float 5) s) (\<lambda>s.
   bind (getattr s (Obj X) ''x'') (\<lambda>x. Inr (X = Y, x))))) = Inr (True, Float 5) \<and>
   bind (RotationQuaternion_init [1, 0, 0, 0] empty_state) (\<lambda>(X, s).
   bind (RotationQuaternion_to_quaternion X s) (\<lambda>(Y, s).
   bind (snd (gen_getter_setter_funs RotationQuaternion ''x'') Y (Float 5) s) (\<lambda>s.
   bind (getattr s (Obj X) ''x'') (\<lambda>x. Inr (X = Y, x))))) = Inr (True, Float 5)"
  by (simp add: RotationEuler_init_3 RotationQuaternion_init_def Coordinates_init_def
      empty_state_def bind_def RotationEulerRadians_to_radians_def
      RotationEulerDegrees_to_degrees_def RotationQuaternion_to_quaternion_def
      gen_getter_setter_funs_def Let_def setter_def setitem_def notify_observers_def
      getattr.simps(1) property_lookup getter_def)

text \<open>
  Claim C4, amended. The three identity conversions return the receiver itself. The
  conversions that build an instance and return (\<open>to_degrees\<close> of the radians variant,
  \<open>to_radians\<close> of the degrees variant, \<open>to_euler\<close> of the two Euler variants) return a new one
  and leave the receiver as it was; a later set through a property of the new instance
  leaves the receiver unchanged, and a set through a property of the receiver leaves the new
  instance unchanged. \<open>to_matrix\<close> of a Translation, a Scale and the two Euler variants
  returns a matrix built anew from the components, a value of its own, and writes nothing to
  the receiver.
\<close>

theorem conversions_return_self_or_new:
  "RotationEulerRadians_to_radians self s = Inr (self, s) \<and>
   RotationEulerDegrees_to_degrees self s = Inr (self, s) \<and>
   RotationQuaternion_to_quaternion self s = Inr (self, s) \<and>
   (self < length (heap s) \<and> array (heap s ! self) = [x, y, z] \<and>
    axes (heap s ! self) = Some (Str ax) \<and> lower units \<in> {''rad'', ''deg''} \<and>
    res \<in> {RotationEulerRadians_to_degrees self s,
            RotationEulerRadians_to_euler self units s,
            RotationEulerDegrees_to_radians self s,
            RotationEulerDegrees_to_euler self units s} \<longrightarrow>
      (\<exists>r' s'. res = Inr (r', s') \<and>
         r' \<noteq> self \<and> r' < length (heap s') \<and> heap s' ! self = heap s ! self \<and>
         (\<forall>indices val t. setter indices r' val s' = Inr t \<longrightarrow> heap t ! self = heap s ! self) \<and>
         (\<forall>indices val t. setter indices self val s' = Inr t \<longrightarrow> heap t ! r' = heap s' ! r'))) \<and>
   (array (heap s ! self) = [x, y, z] \<longrightarrow>
      Translation_to_matrix self s =
        Inr [[1, 0, 0, x], [0, 1, 0, y], [0, 0, 1, z], [0, 0, 0, 1]] \<and>
      Scale_to_matrix self s =
        Inr [[x, 0, 0, 0], [0, y, 0, 0], [0, 0, z, 0], [0, 0, 0, 1]]) \<and>
   (array (heap s ! self) = [x, y, z] \<and> axes (heap s ! self) = Some (Str ax) \<longrightarrow>
      RotationEulerRadians_to_matrix R self s =
        bind (euler_as_matrix R (Str (drop 1 ax)) [x, y, z]) (set_block3 (eye 4)) \<and>
      RotationEulerDegrees_to_matrix R self s =
        bind (bind (euler_as_matrix R (Str (drop 1 ax)) (radians [x, y, z])) (set_block3 (eye 4)))
          (\<lambda>mat. Inr (mat,
             s\<lparr>heap := heap s @
               [\<lparr>cls = RotationEulerRadians, array = radians [x, y, z],
                 axes = Some (Str ax)\<rparr>]\<rparr>)))"
proof (intro conjI)
  show "RotationEulerRadians_to_radians self s = Inr (self, s)"
    by (simp add: RotationEulerRadians_to_radians_def)
  show "RotationEulerDegrees_to_degrees self s = Inr (self, s)"
    by (simp add: RotationEulerDegrees_to_degrees_def)
  show "RotationQuaternion_to_quaternion self s = Inr (self, s)"
    by (simp add: RotationQuaternion_to_quaternion_def)
next
  show "self < length (heap s) \<and> array (heap s ! self) = [x, y, z] \<and>
    axes (heap s ! self) = Some (Str ax) \<and> lower units \<in> {''rad'', ''deg''} \<and>
    res \<in> {RotationEulerRadians_to_degrees self s,
            RotationEulerRadians_to_euler self units s,
            RotationEulerDegrees_to_radians self s,
            RotationEulerDegrees_to_euler self units s} \<longrightarrow>
      (\<exists>r' s'. res = Inr (r', s') \<and>
         r' \<noteq> self \<and> r' < length (heap s') \<and> heap s' ! self = heap s ! self \<and>
         (\<forall>indices val t. setter indices r' val s' = Inr t \<longrightarrow> heap t ! self = heap s ! self) \<and>
         (\<forall>indices val t. setter indices self val s' = Inr t \<longrightarrow> heap t ! r' = heap s' ! r'))"
  proof (rule impI)
    assume a: "self < length (heap s) \<and> array (heap s ! self) = [x, y, z] \<and>
      axes (heap s ! self) = Some (Str ax) \<and> lower units \<in> {''rad'', ''deg''} \<and>
      res \<in> {RotationEulerRadians_to_degrees self s,
              RotationEulerRadians_to_euler self units s,
              RotationEulerDegrees_to_radians self s,
              RotationEulerDegrees_to_euler self units s}"
    then have self: "self < length (heap s)" and arr: "array (heap s ! self) = [x, y, z]"
      and ax: "axes (heap s ! self) = Some (Str ax)"
      and units: "lower units = ''rad'' \<or> lower units = ''deg''"
      by simp_all
    from a have cases:
      "res = RotationEulerRadians_to_degrees self s \<or>
       res = RotationEulerRadians_to_euler self units s \<or>
       res = RotationEulerDegrees_to_radians self s \<or>
       res = RotationEulerDegrees_to_euler self units s"
      by simp
    have "\<exists>r' s'. res = Inr (r', s')"
      using cases units RotationEulerRadians_to_degrees_result [OF arr ax]
        RotationEulerRadians_to_euler_result [OF arr ax, of units]
        RotationEulerDegrees_to_radians_result [OF arr ax]
        RotationEulerDegrees_to_euler_result [OF arr ax, of units]
      by (elim disjE) simp_all
    then obtain r' s' where res: "res = Inr (r', s')" by blast
    have new: "length (heap s) \<le> r' \<and> r' < length (heap s') \<and>
        take (length (heap s)) (heap s') = heap s"
      using cases
    proof (elim disjE)
      assume "res = RotationEulerRadians_to_degrees self s"
      from RotationEulerRadians_to_degrees_extends [OF this [symmetric, unfolded res]]
      show ?thesis by simp
    next
      assume "res = RotationEulerRadians_to_euler self units s"
      from RotationEulerRadians_to_euler_extends [OF this [symmetric, unfolded res]]
      show ?thesis by simp
    next
      assume "res = RotationEulerDegrees_to_radians self s"
      from RotationEulerDegrees_to_radians_extends [OF this [symmetric, unfolded res]]
      show ?thesis by simp
    next
      assume "res = RotationEulerDegrees_to_euler self units s"
      from RotationEulerDegrees_to_euler_extends [OF this [symmetric, unfolded res]]
      show ?thesis by simp
    qed
    have ne: "r' \<noteq> self" and old: "heap s' ! self = heap s ! self"
      using new self take_nth_eq [of "length (heap s)" "heap s'" "heap s" self] by simp_all
    have 1: "heap t ! self = heap s ! self" if "setter indices r' val s' = Inr t" for indices val t
      using setter_frame [OF that, of self] ne old by simp
    have 2: "heap t ! r' = heap s' ! r'" if "setter indices self val s' = Inr t" for indices val t
      using setter_frame [OF that, of r'] ne by simp
    from res new ne old 1 2
    show "\<exists>r' s'. res = Inr (r', s') \<and>
         r' \<noteq> self \<and> r' < length (heap s') \<and> heap s' ! self = heap s ! self \<and>
         (\<forall>indices val t. setter indices r' val s' = Inr t \<longrightarrow> heap t ! self = heap s ! self) \<and>
         (\<forall>indices val t. setter indices self val s' = Inr t \<longrightarrow> heap t ! r' = heap s' ! r')"
      by blast
  qed
next
  show "array (heap s ! self) = [x, y, z] \<longrightarrow>
      Translation_to_matrix self s =
        Inr [[1, 0, 0, x], [0, 1, 0, y], [0, 0, 1, z], [0, 0, 0, 1]] \<and>
      Scale_to_matrix self s =
        Inr [[x, 0, 0, 0], [0, y, 0, 0], [0, 0, z, 0], [0, 0, 0, 1]]"
    by (simp add: Translation_to_matrix_def Scale_to_matrix_def diag_4)
next
  show "array (heap s ! self) = [x, y, z] \<and> axes (heap s ! self) = Some (Str ax) \<longrightarrow>
      RotationEulerRadians_to_matrix R self s =
        bind (euler_as_matrix R (Str (drop 1 ax)) [x, y, z]) (set_block3 (eye 4)) \<and>
      RotationEulerDegrees_to_matrix R self s =
        bind (bind (euler_as_matrix R (Str (drop 1 ax)) (radians [x, y, z])) (set_block3 (eye 4)))
          (\<lambda>mat. Inr (mat,
             s\<lparr>heap := heap s @
               [\<lparr>cls = RotationEulerRadians, array = radians [x, y, z],
                 axes = Some (Str ax)\<rparr>]\<rparr>))"
  proof (intro impI conjI)
    assume a: "array (heap s ! self) = [x, y, z] \<and> axes (heap s ! self) = Some (Str ax)"
    then show "RotationEulerRadians_to_matrix R self s =
        bind (euler_as_matrix R (Str (drop 1 ax)) [x, y, z]) (set_block3 (eye 4))"
      by (simp add: RotationEulerRadians_to_matrix_def getattr_axes bind_def)
    from a have "RotationEulerDegrees_to_radians self s =
        Inr (length (heap s),
          s\<lparr>heap := heap s @
            [\<lparr>cls = RotationEulerRadians, array = radians [x, y, z], axes = Some (Str ax)\<rparr>]\<rparr>)"
      by (intro RotationEulerDegrees_to_radians_result) simp_all
    then show "RotationEulerDegrees_to_matrix R self s =
        bind (bind (euler_as_matrix R (Str (drop 1 ax)) (radians [x, y, z])) (set_block3 (eye 4)))
          (\<lambda>mat. Inr (mat,
             s\<lparr>heap := heap s @
               [\<lparr>cls = RotationEulerRadians, array = radians [x, y, z],
                 axes = Some (Str ax)\<rparr>]\<rparr>))"
      by (simp add: RotationEulerDegrees_to_matrix_def RotationEulerRadians_to_matrix_def
          getattr_axes bind_def)
  qed
qed

theorem conversions_return_self_or_new_witness:
  "bind (RotationEuler_init RotationEulerRadians [pi, 0, 0] (Some (Str ''rzyx'')) empty_state) (\<lambda>(X, s).
   bind (RotationEulerRadians_to_degrees X s) (\<lambda>(Y, s).
   bind (snd (gen_getter_setter_funs RotationEulerDegrees ''x'') Y (Float 5) s) (\<lambda>s.
   bind (getattr s (Obj X) ''x'') (\<lambda>x. Inr (X = Y, x))))) = Inr (False, Float pi) \<and>
   bind (RotationEuler_init RotationEulerRadians [pi, 0, 0] (Some (Str ''rzyx'')) empty_state) (\<lambda>(X, s).
   bind (RotationEulerRadians_to_degrees X s) (\<lambda>(Y, s).
   bind (snd (gen_getter_setter_funs RotationEulerRadians ''x'') X (Float 5) s) (\<lambda>s.
   bind (getattr s (Obj Y) ''x'') (\<lambda>x. Inr (X = Y, x))))) = Inr (False, Float 180) \<and>
   bind (RotationEuler_init RotationEulerRadians [pi, 0, 0] (Some (Str ''rzyx'')) empty_state) (\<lambda>(X, s).
   bind (RotationEulerRadians_to_euler X ''RAD'' s) (\<lambda>(Y, s).
   bind (snd (gen_getter_setter_funs RotationEulerRadians ''x'') Y (Float 5) s) (\<lambda>s.
   bind (getattr s (Obj X) ''x'') (\<lambda>x. Inr (X = Y, x))))) = Inr (False, Float pi) \<and>
   bind (RotationEuler_init RotationEulerRadians [pi, 0, 0] (Some (Str ''rzyx'')) empty_state) (\<lambda>(X, s).
   bind (RotationEulerRadians_to_euler X ''RAD'' s) (\<lambda>(Y, s).
   bind (snd (gen_getter_setter_funs RotationEulerRadians ''x'') X (Float 5) s) (\<lambda>s.
   bind (getattr s (Obj Y) ''x'') (\<lambda>x. Inr (X = Y, x))))) = Inr (False, Float pi) \<and>
   bind (RotationEuler_init RotationEulerDegrees [180, 0, 0] (Some (Str ''rzyx'')) empty_state) (\<lambda>(X, s).
   bind (RotationEulerDegrees_to_radians X s) (\<lambda>(Y, s).
   bind (snd (gen_getter_setter_funs RotationEulerRadians ''x'') Y (Float 5) s) (\<lambda>s.
   bind (getattr s (Obj X) ''x'') (\<lambda>x. Inr (X = Y, x))))) = Inr (False, Float 180) \<and>
   bind (RotationEuler_init RotationEulerDegrees [180, 0, 0] (Some (Str ''rzyx'')) empty_state) (\<lambda>(X, s).
   bind (RotationEulerDegrees_to_radians X s) (\<lambda>(Y, s).
   bind (snd (gen_getter_setter_funs RotationEulerDegrees ''x'') X (Float 5) s) (\<lambda>s.
   bind (getattr s (Obj Y) ''x'') (\<lambda>x. Inr (X = Y, x))))) = Inr (False, Float pi) \<and>
   bind (RotationEuler_init RotationEulerDegrees [180, 0, 0] (Some (Str ''rzyx'')) empty_state) (\<lambda>(X, s).
   bind (RotationEulerDegrees_to_euler X ''Deg'' s) (\<lambda>(Y, s).
   bind (snd (gen_getter_setter_funs RotationEulerDegrees ''x'') Y (Float 5) s) (\<lambda>s.
   bind (getattr s (Obj X) ''x'') (\<lambda>x. Inr (X = Y, x))))) = Inr (False, Float 180) \<and>
   bind (RotationEuler_init RotationEulerDegrees [180, 0, 0] (Some (Str ''rzyx'')) empty_state) (\<lambda>(X, s).
   bind (RotationEulerDegrees_to_euler X ''Deg'' s) (\<lambda>(Y, s).
   bind (snd (gen_getter_setter_funs RotationEulerDegrees ''x'') X (Float 5) s) (\<lambda>s.
   bind (getattr s (Obj Y) ''x'') (\<lambda>x. Inr (X = Y, x))))) = Inr (False, Float 180) \<and>
   bind (Translation_init [1, 2, 3] empty_state) (\<lambda>(X, s). Translation_to_matrix X s) =
     Inr [[1, 0, 0, 1], [0, 1, 0, 2], [0, 0, 1, 3], [0, 0, 0, 1]] \<and>
   bind (Scale_init [1, 2, 3] empty_state) (\<lambda>(X, s). Scale_to_matrix X s) =
     Inr [[1, 0, 0, 0], [0, 2, 0, 0], [0, 0, 3, 0], [0, 0, 0, 1]] \<and>
   bind (RotationEuler_init RotationEulerRadians [0, 0, 0] None empty_state)
     (\<lambda>(X, s). RotationEulerRadians_to_matrix identity_R X s) =
     Inr [[1, 0, 0, 0], [0, 1, 0, 0], [0, 0, 1, 0], [0, 0, 0, 1]] \<and>
   bind (RotationEuler_init RotationEulerDegrees [0, 0, 0] None empty_state)
     (\<lambda>(X, s). bind (RotationEulerDegrees_to_matrix identity_R X s) (\<lambda>(mat, s). Inr mat)) =
     Inr [[1, 0, 0, 0], [0, 1, 0, 0], [0, 0, 1, 0], [0, 0, 0, 1]] \<and>
   bind (Translation_init [1, 2, 3] empty_state) (\<lambda>(X, s).
   bind (Translation_to_matrix X s) (\<lambda>mat.
   bind (snd (gen_getter_setter_funs Translation ''x'') X (Float 5) s) (\<lambda>s.
   bind (Translation_to_matrix X s) (\<lambda>mat'. Inr (mat, mat'))))) =
     Inr ([[1, 0, 0, 1], [0, 1, 0, 2], [0, 0, 1, 3], [0, 0, 0, 1]],
          [[1, 0, 0, 5], [0, 1, 0, 2], [0, 0, 1, 3], [0, 0, 0, 1]])"
proof -
  let ?XR = "\<lparr>cls = RotationEulerRadians, array = [pi, 0, 0], axes = Some (Str ''rzyx'')\<rparr>"
  let ?XD = "\<lparr>cls = RotationEulerDegrees, array = [180, 0, 0], axes = Some (Str ''rzyx'')\<rparr>"
  let ?sR = "\<lparr>heap = [?XR], notified = []\<rparr>"
  let ?sD = "\<lparr>heap = [?XD], notified = []\<rparr>"
  have units: "lower ''RAD'' \<in> {''rad'', ''deg''}" "lower ''Deg'' \<in> {''rad'', ''deg''}"
    by (simp_all add: lower_examples)
  have "0 < length (heap ?sR) \<and> array (heap ?sR ! 0) = [pi, 0, 0] \<and>
      axes (heap ?sR ! 0) = Some (Str ''rzyx'') \<and> lower ''RAD'' \<in> {''rad'', ''deg''} \<and>
      RotationEulerRadians_to_degrees 0 ?sR \<in>
        {RotationEulerRadians_to_degrees 0 ?sR, RotationEulerRadians_to_euler 0 ''RAD'' ?sR,
         RotationEulerDegrees_to_radians 0 ?sR, RotationEulerDegrees_to_euler 0 ''RAD'' ?sR}"
    using units by simp
  from conversions_return_self_or_new
      [of 0 "?sR" pi 0 0 "''rzyx''" "''RAD''" "RotationEulerRadians_to_degrees 0 ?sR",
        THEN conjunct2, THEN conjunct2, THEN conjunct2, THEN conjunct1, THEN mp, OF this]
  have 1: "\<exists>r' s'. RotationEulerRadians_to_degrees 0 ?sR = Inr (r', s') \<and> r' \<noteq> 0"
    by blast
  have "0 < length (heap ?sR) \<and> array (heap ?sR ! 0) = [pi, 0, 0] \<and>
      axes (heap ?sR ! 0) = Some (Str ''rzyx'') \<and> lower ''RAD'' \<in> {''rad'', ''deg''} \<and>
      RotationEulerRadians_to_euler 0 ''RAD'' ?sR \<in>
        {RotationEulerRadians_to_degrees 0 ?sR, RotationEulerRadians_to_euler 0 ''RAD'' ?sR,
         RotationEulerDegrees_to_radians 0 ?sR, RotationEulerDegrees_to_euler 0 ''RAD'' ?sR}"
    using units by simp
  from conversions_return_self_or_new
      [of 0 "?sR" pi 0 0 "''rzyx''" "''RAD''" "RotationEulerRadians_to_euler 0 ''RAD'' ?sR",
        THEN conjunct2, THEN conjunct2, THEN conjunct2, THEN conjunct1, THEN mp, OF this]
  have 2: "\<exists>r' s'. RotationEulerRadians_to_euler 0 ''RAD'' ?sR = Inr (r', s') \<and> r' \<noteq> 0"
    by blast
  have "0 < length (heap ?sD) \<and> array (heap ?sD ! 0) = [180, 0, 0] \<and>
      axes (heap ?sD ! 0) = Some (Str ''rzyx'') \<and> lower ''Deg'' \<in> {''rad'', ''deg''} \<and>
      RotationEulerDegrees_to_radians 0 ?sD \<in>
        {RotationEulerRadians_to_degrees 0 ?sD, RotationEulerRadians_to_euler 0 ''Deg'' ?sD,
         RotationEulerDegrees_to_radians 0 ?sD, RotationEulerDegrees_to_euler 0 ''Deg'' ?sD}"
    using units by simp
  from conversions_return_self_or_new
      [of 0 "?sD" 180 0 0 "''rzyx''" "''Deg''" "RotationEulerDegrees_to_radians 0 ?sD",
        THEN conjunct2, THEN conjunct2, THEN conjunct2, THEN conjunct1, THEN mp, OF this]
  have 3: "\<exists>r' s'. RotationEulerDegrees_to_radians 0 ?sD = Inr (r', s') \<and> r' \<noteq> 0"
    by blast
  have "0 < length (heap ?sD) \<and> array (heap ?sD ! 0) = [180, 0, 0] \<and>
      axes (heap ?sD ! 0) = Some (Str ''rzyx'') \<and> lower ''Deg'' \<in> {''rad'', ''deg''} \<and>
      RotationEulerDegrees_to_euler 0 ''Deg'' ?sD \<in>
        {RotationEulerRadians_to_degrees 0 ?sD, RotationEulerRadians_to_euler 0 ''Deg'' ?sD,
         RotationEulerDegrees_to_radians 0 ?sD, RotationEulerDegrees_to_euler 0 ''Deg'' ?sD}"
    using units by simp
  from conversions_return_self_or_new
      [of 0 "?sD" 180 0 0 "''rzyx''" "''Deg''" "RotationEulerDegrees_to_euler 0 ''Deg'' ?sD",
        THEN conjunct2, THEN conjunct2, THEN conjunct2, THEN conjunct1, THEN mp, OF this]
  have 4: "\<exists>r' s'. RotationEulerDegrees_to_euler 0 ''Deg'' ?sD = Inr (r', s') \<and> r' \<noteq> 0"
    by blast
  have prog: ?thesis
    by (simp add: RotationEuler_init_3 Translation_init_def Scale_init_def Coordinates_init_def
        empty_state_def bind_def lower_examples degrees_def radians_def
        RotationEulerRadians_to_degrees_result RotationEulerRadians_to_euler_result
        RotationEulerDegrees_to_radians_result RotationEulerDegrees_to_euler_result
        gen_getter_setter_funs_def Let_def setter_def setitem_def notify_observers_def
        getattr.simps(1) property_lookup getter_def
        Translation_to_matrix_def Scale_to_matrix_def diag_4
        RotationEulerRadians_to_matrix_def RotationEulerDegrees_to_matrix_def getattr_axes
        identity_R_def set_block3_def eye_3 eye_4)
  from 1 2 3 4 prog show ?thesis by blast
qed

subsection \<open>The rotation between two vectors\<close>

lemma rotation_matrix_between_vectors_Inl:
  "rotation_matrix_between_vectors np from_vec to_vec = Inl e \<longleftrightarrow>
     e = ValueError \<and>
     (\<exists>a b. np_normalized np from_vec = Some a \<and> np_normalized np to_vec = Some b \<and>
        np_dot np a b = - 1)"
  by (auto simp: rotation_matrix_between_vectors_def Let_def split: option.splits)

lemma literal_formula_entries:
  "mat_add (mat_add (eye 3) (cross_product_matrix (v0, v1, v2)))
     (mat_scale (mat_dot (cross_product_matrix (v0, v1, v2)) (cross_product_matrix (v0, v1, v2))) k) =
   [[1 - (v1 * v1 + v2 * v2) * k, - v2 + v0 * v1 * k, v1 + v0 * v2 * k],
    [v2 + v0 * v1 * k, 1 - (v0 * v0 + v2 * v2) * k, - v0 + v1 * v2 * k],
    [- v1 + v0 * v2 * k, v0 + v1 * v2 * k, 1 - (v0 * v0 + v1 * v1) * k]]"
  by (simp add: eye_3 cross_product_matrix_def mat_add_def mat_scale_def mat_dot_def algebra_simps)



subsection \<open>The guard on opposite vectors\<close>

text \<open>
  Without rounding, the dot product of the normalized inputs is \<open>-1\<close> exactly when they are
  opposite, and the function raises exactly then.
\<close>

lemma linalg_norm_nonneg: "0 \<le> linalg_norm v"
  by (cases v) (simp add: linalg_norm_def)

lemma linalg_norm_squared:
  "(linalg_norm (x, y, z))\<^sup>2 = x\<^sup>2 + y\<^sup>2 + z\<^sup>2"
  by (simp add: linalg_norm_def)

lemma normalized_unit:
  assumes "normalized v = Some a"
  shows "dot a a = 1"
proof -
  obtain x y z where v: "v = (x, y, z)" by (cases v)
  let ?n = "linalg_norm (x, y, z)"
  from assms v have n: "?n \<noteq> 0" and a: "a = (x / ?n, y / ?n, z / ?n)"
    by (auto simp: normalized_def split: if_splits)
  have "dot a a = (x\<^sup>2 + y\<^sup>2 + z\<^sup>2) / ?n\<^sup>2"
    by (simp add: a dot_def power2_eq_square add_divide_distrib)
  also have "\<dots> = 1"
    using n by (simp add: linalg_norm_squared [symmetric])
  finally show ?thesis .
qed

lemma dot_minus_one_iff:
  assumes "dot a a = 1" "dot b b = 1"
  shows "dot a b = - 1 \<longleftrightarrow> a = (case b of (b0, b1, b2) \<Rightarrow> (- b0, - b1, - b2))"
proof -
  obtain a0 a1 a2 where a: "a = (a0, a1, a2)" by (cases a)
  obtain b0 b1 b2 where b: "b = (b0, b1, b2)" by (cases b)
  have sq: "(a0 + b0)\<^sup>2 + (a1 + b1)\<^sup>2 + (a2 + b2)\<^sup>2 = dot a a + dot b b + 2 * dot a b"
    by (simp add: a b dot_def power2_eq_square algebra_simps)
  show ?thesis
  proof
    assume "dot a b = - 1"
    with sq assms have "(a0 + b0)\<^sup>2 + (a1 + b1)\<^sup>2 + (a2 + b2)\<^sup>2 = 0" by simp
    then have "a0 + b0 = 0 \<and> a1 + b1 = 0 \<and> a2 + b2 = 0"
      by (metis add_nonneg_eq_0_iff power2_eq_iff_nonneg zero_le_power2 zero_eq_power2 add_nonneg_nonneg)
    then show "a = (case b of (b0, b1, b2) \<Rightarrow> (- b0, - b1, - b2))"
      by (simp add: a b)
  next
    assume "a = (case b of (b0, b1, b2) \<Rightarrow> (- b0, - b1, - b2))"
    then have "dot a b = - dot b b"
      by (simp add: a b dot_def)
    with assms show "dot a b = - 1" by simp
  qed
qed

lemma exact_guard_iff_opposite:
  "rotation_matrix_between_vectors exact_np from_vec to_vec = Inl e \<longleftrightarrow>
     e = ValueError \<and>
     (\<exists>a b. normalized from_vec = Some a \<and> normalized to_vec = Some b \<and>
        a = (case b of (b0, b1, b2) \<Rightarrow> (- b0, - b1, - b2)))"
proof -
  have "dot a b = - 1 \<longleftrightarrow> a = (case b of (b0, b1, b2) \<Rightarrow> (- b0, - b1, - b2))"
    if "normalized from_vec = Some a" "normalized to_vec = Some b" for a b
    using that by (intro dot_minus_one_iff normalized_unit)
  then show ?thesis
    unfolding rotation_matrix_between_vectors_Inl by (auto simp: exact_np_def)
qed

text \<open>With the rounding of float64 it is otherwise. First the rounding itself.\<close>

lemma round_ties_even_near:
  assumes "\<bar>m - of_int k\<bar> < 1 / 2"
  shows "round_ties_even m = k"
proof (cases "of_int k \<le> m")
  case True
  with assms have "\<lfloor>m\<rfloor> = k" by linarith
  with assms True show ?thesis by (simp add: round_ties_even_def)
next
  case False
  with assms have "\<lfloor>m\<rfloor> = k - 1" by linarith
  with assms False show ?thesis by (simp add: round_ties_even_def)
qed

lemma two_powr_diff: "2 powr (real m - real n) = 2 ^ m / (2 ^ n :: real)"
  by (simp add: powr_diff powr_realpow)

lemma fl_eqI:
  fixes k :: int and n :: nat
  assumes n: "n \<le> 1074" and k: "2 ^ 52 \<le> k" "k < 2 ^ 53"
    and lo: "2 ^ 52 / 2 ^ n \<le> x"
    and near: "\<bar>x - of_int k / 2 ^ n\<bar> < 1 / (2 * 2 ^ n)"
  shows "fl x = of_int k / 2 ^ n"
proof -
  let ?e = "52 - int n"
  have pos: "0 < x"
    using lo by (smt (verit) divide_pos_pos zero_less_power zero_less_numeral)
  have p: "2 powr (- real n) = 1 / (2 ^ n :: real)"
    using two_powr_diff [of 0 n] by simp
  have lo': "2 powr of_int ?e \<le> x"
    using lo two_powr_diff [of 52 n] by simp
  have "x < of_int k / 2 ^ n + 1 / (2 * 2 ^ n)"
    using near by linarith
  also have "\<dots> = (of_int k + 1 / 2) / 2 ^ n"
    by (simp add: field_simps)
  also have "\<dots> \<le> (2 ^ 53 - 1 / 2) / 2 ^ n"
  proof -
    have "k \<le> 2 ^ 53 - 1"
      using k(2) by linarith
    then have "(of_int k :: real) \<le> of_int (2 ^ 53 - 1)"
      by (simp only: of_int_le_iff)
    then have "of_int k + 1 / 2 \<le> (2 ^ 53 - 1 / 2 :: real)"
      by simp
    then show ?thesis by (rule divide_right_mono) simp
  qed
  also have "\<dots> < 2 ^ 53 / 2 ^ n"
    by (rule divide_strict_right_mono) simp_all
  also have "\<dots> = 2 powr of_int (?e + 1)"
    using two_powr_diff [of 53 n] by (simp add: algebra_simps)
  finally have hi': "x < 2 powr of_int (?e + 1)" .
  have "\<lfloor>log 2 \<bar>x\<bar>\<rfloor> = ?e"
    using pos lo' hi' by (simp add: floor_log_eq_powr_iff)
  moreover have "max ?e (- 1022) = ?e"
    using n by simp
  ultimately have e: "max \<lfloor>log 2 \<bar>x\<bar>\<rfloor> (- 1022) - 52 = - int n"
    by simp
  have "\<bar>x / 2 powr of_int (- int n) - of_int k\<bar> < 1 / 2"
  proof -
    have "x / 2 powr of_int (- int n) - of_int k = (x - of_int k / 2 ^ n) * 2 ^ n"
      by (simp add: p field_simps)
    then have "\<bar>x / 2 powr of_int (- int n) - of_int k\<bar> = \<bar>x - of_int k / 2 ^ n\<bar> * 2 ^ n"
      by (simp add: abs_mult)
    also have "\<dots> < 1 / (2 * 2 ^ n) * 2 ^ n"
      using near by (rule mult_strict_right_mono) simp
    finally show ?thesis by simp
  qed
  then have "round_ties_even (x / 2 powr of_int (- int n)) = k"
    by (rule round_ties_even_near)
  with pos e show ?thesis
    by (simp add: fl_def Let_def p)
qed

lemma fl_minus: "fl (- x) = - fl x"
  by (simp add: fl_def Let_def sgn_if)

lemma fl_0: "fl 0 = 0"
  by (simp add: fl_def)
lemma fl_1: "fl (1) = 1"
  using fl_eqI [of 52 4503599627370496 "1"] by simp

lemma fl_2: "fl (2) = 2"
  using fl_eqI [of 51 4503599627370496 "2"] by simp

lemma fl_3: "fl (3) = 3"
  using fl_eqI [of 51 6755399441055744 "3"] by simp

lemma sqrt_3_bounds:
  "15600926743107923 / 9007199254740992 < sqrt 3"
  "sqrt 3 < 15600926743107925 / 9007199254740992"
  by (rule real_less_rsqrt, simp add: power2_eq_square) (rule real_less_lsqrt, simp_all add: power2_eq_square)

lemma fl_sqrt_3: "fl (sqrt 3) = 3900231685776981 / 2251799813685248"
proof -
  have "1 \<le> sqrt 3"
    by (rule real_le_rsqrt) simp
  moreover have "\<bar>sqrt 3 - 3900231685776981 / 2251799813685248\<bar> < 1 / 9007199254740992"
    using sqrt_3_bounds by linarith
  ultimately show ?thesis
    using fl_eqI [of 52 7800463371553962 "sqrt 3"] by simp
qed

lemma fl_inv_norm: "fl (2251799813685248 / 3900231685776981) = 5200308914369309 / 9007199254740992"
  using fl_eqI [of 53 5200308914369309 "2251799813685248 / 3900231685776981"] by simp

lemma fl_square: "fl (27043212804868901165577241137481 / 81129638414606681695789005144064) = 6004799503160663 / 18014398509481984"
  using fl_eqI [of 54 6004799503160663 "27043212804868901165577241137481 / 81129638414606681695789005144064"] by simp

lemma fl_sum2: "fl (6004799503160663 / 9007199254740992) = 6004799503160663 / 9007199254740992"
  using fl_eqI [of 53 6004799503160663 "6004799503160663 / 9007199254740992"] by simp

lemma fl_sum3: "fl (18014398509481989 / 18014398509481984) = 4503599627370497 / 4503599627370496"
  using fl_eqI [of 52 4503599627370497 "18014398509481989 / 18014398509481984"] by simp

lemma fl_2_pow_30: "fl (1 / 1073741824) = 1 / 1073741824"
  using fl_eqI [of 82 4503599627370496 "1 / 2 ^ 30"] by simp

lemma fl_2_pow_60: "fl (1 / 1152921504606846976) = 1 / 1152921504606846976"
  using fl_eqI [of 112 4503599627370496 "1 / 2 ^ 60"] by simp

lemma fl_1_plus: "fl (1152921504606846977 / 1152921504606846976) = 1"
  using fl_eqI [of 52 4503599627370496 "1 + 1 / 2 ^ 60"] by simp

lemma float64_normalized_ones:
  "float64_normalized (1, 1, 1) =
     Some (5200308914369309 / 9007199254740992, 5200308914369309 / 9007199254740992,
           5200308914369309 / 9007199254740992)"
  "float64_normalized (- 1, - 1, - 1) =
     Some (- (5200308914369309 / 9007199254740992), - (5200308914369309 / 9007199254740992),
           - (5200308914369309 / 9007199254740992))"
  by (simp_all add: float64_normalized_def Let_def fl_minus fl_1 fl_2 fl_3 fl_sqrt_3 fl_inv_norm)

lemma float64_dot_ones:
  "float64_dot
     (5200308914369309 / 9007199254740992, 5200308914369309 / 9007199254740992,
      5200308914369309 / 9007199254740992)
     (- (5200308914369309 / 9007199254740992), - (5200308914369309 / 9007199254740992),
      - (5200308914369309 / 9007199254740992)) = - (4503599627370497 / 4503599627370496)"
  by (simp add: float64_dot_def fl_minus fl_square fl_sum2 fl_sum3)

lemma float64_cross_ones:
  "float64_cross
     (5200308914369309 / 9007199254740992, 5200308914369309 / 9007199254740992,
      5200308914369309 / 9007199254740992)
     (- (5200308914369309 / 9007199254740992), - (5200308914369309 / 9007199254740992),
      - (5200308914369309 / 9007199254740992)) = (0, 0, 0)"
  by (simp add: float64_cross_def fl_minus fl_square fl_0)

lemma float64_normalized_near_opposite:
  "float64_normalized (1, 0, 0) = Some (1, 0, 0)"
  "float64_normalized (- 1, 1 / 2 ^ 30, 0) = Some (- 1, 1 / 2 ^ 30, 0)"
  by (simp_all add: float64_normalized_def Let_def fl_minus fl_1 fl_0 fl_2_pow_30 fl_2_pow_60
      fl_1_plus)

lemma float64_dot_near_opposite:
  "float64_dot (1, 0, 0) (- 1, 1 / 2 ^ 30, 0) = - 1"
  by (simp add: float64_dot_def fl_minus fl_1 fl_0 fl_2_pow_30)

text \<open>
  Claim C6. The function is to raise a domain error exactly when the normalized inputs are
  opposite. It raises when the dot product that numpy computes is \<open>-1.\<close>, and in float64
  this is not when the inputs are opposite: for \<open>[1, 1, 1]\<close> and \<open>[-1, -1, -1]\<close> the
  computed dot product is \<open>-1.0000000000000002\<close> and the function returns the identity
  matrix, and for \<open>[1, 0, 0]\<close> and \<open>[-1, 2 ** -30, 0]\<close>, which are not opposite, it is
  \<open>-1.\<close> and the function raises. It raises for \<open>[1, 0, 0]\<close> and \<open>[-1, 0, 0]\<close>.
\<close>

theorem rotation_matrix_between_vectors_float64_guard:
  "rotation_matrix_between_vectors float64_np (1, 1, 1) (- 1, - 1, - 1) =
     Inr (Some [[1, 0, 0], [0, 1, 0], [0, 0, 1]]) \<and>
   rotation_matrix_between_vectors float64_np (1, 0, 0) (- 1, 1 / 2 ^ 30, 0) = Inl ValueError \<and>
   rotation_matrix_between_vectors float64_np (1, 0, 0) (- 1, 0, 0) = Inl ValueError \<and>
   (rotation_matrix_between_vectors np from_vec to_vec = Inl e \<longleftrightarrow>
      e = ValueError \<and>
      (\<exists>a b. np_normalized np from_vec = Some a \<and> np_normalized np to_vec = Some b \<and>
         np_dot np a b = - 1))"
proof (intro conjI)
  show "rotation_matrix_between_vectors float64_np (1, 1, 1) (- 1, - 1, - 1) =
     Inr (Some [[1, 0, 0], [0, 1, 0], [0, 0, 1]])"
    by (simp add: rotation_matrix_between_vectors_def float64_np_def float64_normalized_ones
        float64_dot_ones float64_cross_ones literal_formula_entries)
  show "rotation_matrix_between_vectors float64_np (1, 0, 0) (- 1, 1 / 2 ^ 30, 0) = Inl ValueError"
    using float64_normalized_near_opposite float64_dot_near_opposite
    by (simp add: rotation_matrix_between_vectors_def float64_np_def)
  have "float64_normalized (- 1, 0, 0) = Some (- 1, 0, 0)"
    by (simp add: float64_normalized_def Let_def fl_minus fl_1 fl_0)
  moreover have "float64_dot (1, 0, 0) (- 1, 0, 0) = - 1"
    by (simp add: float64_dot_def fl_minus fl_1 fl_0)
  ultimately
  show "rotation_matrix_between_vectors float64_np (1, 0, 0) (- 1, 0, 0) = Inl ValueError"
    using float64_normalized_near_opposite(1)
    by (simp add: rotation_matrix_between_vectors_def float64_np_def)
  show "rotation_matrix_between_vectors np from_vec to_vec = Inl e \<longleftrightarrow>
      e = ValueError \<and>
      (\<exists>a b. np_normalized np from_vec = Some a \<and> np_normalized np to_vec = Some b \<and>
         np_dot np a b = - 1)"
    by (rule rotation_matrix_between_vectors_Inl)
qed

end
